theory Spec2Isabelle
  imports Complex_Main "HOL-Library.Sublist"
begin

section \<open>Values and strings\<close>

text \<open>
  The fields read from the decoded webhook payload are JavaScript values. Only their
  truthiness (the \<^verbatim>\<open>!x\<close> tests of the handler), their identity (\<^verbatim>\<open>includes\<close>)
  and their being passed on to a request matter. \<open>JObj\<close> stands for any object or
  array (always truthy). JSON numbers are taken as integers; NaN cannot come out of a
  JSON document.
\<close>

datatype jsval = JUndefined | JNull | JBool bool | JNum int | JStr string | JObj

fun truthy :: "jsval \<Rightarrow> bool" where
  "truthy JUndefined = False"
| "truthy JNull = False"
| "truthy (JBool b) = b"
| "truthy (JNum n) = (n \<noteq> 0)"
| "truthy (JStr s) = (s \<noteq> [])"
| "truthy JObj = True"

text \<open>
  Strings are byte sequences in UTF-8: the source only concatenates and joins strings,
  which commutes with the encoding. The three non-ASCII glyphs of the source are
  U+2705 (white heavy check mark), U+274C (cross mark) and U+2014 (em dash).
\<close>

definition check_mark :: string where
  "check_mark = [CHR 0xE2, CHR 0x9C, CHR 0x85]"

definition cross_mark :: string where
  "cross_mark = [CHR 0xE2, CHR 0x9D, CHR 0x8C]"

definition em_dash :: string where
  "em_dash = [CHR 0xE2, CHR 0x80, CHR 0x94]"

definition newline :: string where
  "newline = [CHR 0x0A]"

text \<open>\<^verbatim>\<open>Array.prototype.join\<close> on an array of strings.\<close>

fun join :: "string \<Rightarrow> string list \<Rightarrow> string" where
  "join sep [] = []"
| "join sep [x] = x"
| "join sep (x # y # ys) = x @ sep @ join sep (y # ys)"

text \<open>
  A non-negative integer inside a template literal: its decimal digits.
  \<open>digit_char\<close> is only applied to numbers below 10.
\<close>

definition digit_char :: "nat \<Rightarrow> char" where
  "digit_char d = ''0123456789'' ! d"

fun string_of_nat :: "nat \<Rightarrow> string" where
  "string_of_nat n =
     (if n < 10 then [digit_char n]
      else string_of_nat (n div 10) @ [digit_char (n mod 10)])"

declare string_of_nat.simps [simp del]

section \<open>Report rendering (src/index.js, lines 44-55)\<close>

record row =
  name :: string
  pass :: bool
  rnotes :: string

text \<open>The arrow function mapped over the rows in \<^verbatim>\<open>renderTable\<close>.\<close>

definition render_row :: "row \<Rightarrow> string" where
  "render_row r =
     ''| '' @ name r @ '' | ''
       @ (if pass r then check_mark @ '' Present'' else cross_mark @ '' Missing'')
       @ '' | '' @ (if rnotes r \<noteq> [] then rnotes r else []) @ '' |''"

definition table_head :: string where
  "table_head = ''| Check | Result | Notes |'' @ newline @ ''|---|---|---|'' @ newline"

definition renderTable :: "row list \<Rightarrow> string" where
  "renderTable rows =
     (let body = join newline (map render_row rows)
      in table_head @ body)"

definition passed_header :: string where
  "passed_header =
     check_mark @ '' **Compliance PASSED** '' @ em_dash
       @ '' All required files are present.''"

definition failed_header :: string where
  "failed_header = cross_mark @ '' **Compliance FAILED** '' @ em_dash @ '' Missing: ''"

definition renderComment :: "row list \<Rightarrow> string" where
  "renderComment rows =
     (let missing = map name (filter (\<lambda>r. \<not> pass r) rows);
          header = (if length missing = 0 then passed_header
                    else failed_header @ join '', '' missing)
      in header @ newline @ newline @ renderTable rows)"

section \<open>The remote API\<close>

text \<open>
  An error thrown by a request carries a \<^verbatim>\<open>status\<close> (the HTTP status of the response)
  or none (a transport fault).
\<close>

datatype api_error = ApiError (status: "nat option")

datatype check_output = Output (title: string) (summary: string) (text_md: string)

text \<open>
  The calls the handlers make, with the parameters they send:
  \<^item> \<open>GetInstallationOctokit installationId\<close>;
  \<^item> \<open>PostCheckRun owner repo name head_sha status\<close>;
  \<^item> \<open>GetContents owner repo path ref\<close>;
  \<^item> \<open>PatchCheckRun owner repo check_run_id status conclusion output\<close>;
  \<^item> \<open>PostComment owner repo issue_number body\<close>.
\<close>

datatype api_call =
    GetInstallationOctokit jsval
  | PostCheckRun jsval jsval string jsval string
  | GetContents jsval jsval string jsval
  | PatchCheckRun jsval jsval jsval string string check_output
  | PostComment jsval jsval jsval string

text \<open>
  The remote side answers a call with an error (the awaited promise rejects) or with
  data; of the data only \<^verbatim>\<open>check.id\<close> of the created check run is read. Within one
  event no handler sends the same call twice, so a function of the call covers every
  behaviour of the remote side.
\<close>

type_synonym remote = "api_call \<Rightarrow> api_error + jsval"

text \<open>
  A run of a handler: the calls it made, in order, and how it ended, by returning or with
  the promise rejected by an error that nothing caught. What the handlers write to the
  console is not part of the model.
\<close>

datatype outcome = Returned | Rejected api_error

record run =
  calls :: "api_call list"
  result :: outcome

text \<open>
  The values the handlers read from the payload: \<^verbatim>\<open>payload.action\<close>,
  \<^verbatim>\<open>payload.installation?.id\<close>, \<^verbatim>\<open>payload.repository?.owner?.login\<close>,
  \<^verbatim>\<open>payload.repository?.name\<close>, \<^verbatim>\<open>payload.pull_request?.head?.sha\<close>,
  \<^verbatim>\<open>payload.number\<close> and \<^verbatim>\<open>payload.pull_request?.head?.ref\<close>; an absent one is
  \<open>JUndefined\<close>.
\<close>

record payload =
  action :: jsval
  installation_id :: jsval
  owner_login :: jsval
  repository_name :: jsval
  head_sha :: jsval
  number :: jsval
  head_ref :: jsval

definition actionable :: "jsval \<Rightarrow> bool" where
  "actionable a = (a \<in> set [JStr ''opened'', JStr ''reopened'', JStr ''synchronize''])"

text \<open>
  The request that creates the check run, the same in both handlers
  (src/index.js lines 73-83, src/unnamed/part_000 lines 52-62).
\<close>

definition create_request :: "jsval \<Rightarrow> jsval \<Rightarrow> jsval \<Rightarrow> api_call" where
  "create_request owner repo headSha =
     PostCheckRun owner repo ''Compliance'' headSha ''in_progress''"

section \<open>The file-check handler (src/index.js)\<close>

definition fileExists :: "remote \<Rightarrow> jsval \<Rightarrow> jsval \<Rightarrow> string \<Rightarrow> jsval \<Rightarrow> api_error + bool" where
  "fileExists octokit owner repo path ref =
     (case octokit (GetContents owner repo path ref) of
        Inr _ \<Rightarrow> Inr True
      | Inl e \<Rightarrow> if status e = Some 404 then Inr False else Inl e)"

text \<open>
  \<^verbatim>\<open>Promise.all\<close>: the results in the order of the array when every promise fulfils, a
  rejection when one rejects. Which rejection wins is decided by arrival; the model takes
  the first in array order, and the handlers only log it.
\<close>

fun promise_all :: "('e + 'a) list \<Rightarrow> 'e + 'a list" where
  "promise_all [] = Inr []"
| "promise_all (Inl e # ps) = Inl e"
| "promise_all (Inr x # ps) =
     (case promise_all ps of Inl e \<Rightarrow> Inl e | Inr xs \<Rightarrow> Inr (x # xs))"

definition targets :: "string list" where
  "targets = [''README.md'', ''CONTRIBUTING.md'']"

text \<open>The async arrow function mapped over the targets (lines 88-92).\<close>

definition check_target :: "remote \<Rightarrow> jsval \<Rightarrow> jsval \<Rightarrow> jsval \<Rightarrow> string \<Rightarrow> api_error + row" where
  "check_target octokit owner repo headSha p =
     (case fileExists octokit owner repo p headSha of
        Inl e \<Rightarrow> Inl e
      | Inr b \<Rightarrow> Inr \<lparr>name = p, pass = b, rnotes = ''Checked at repo root''\<rparr>)"

definition check_files :: "remote \<Rightarrow> jsval \<Rightarrow> jsval \<Rightarrow> jsval \<Rightarrow> string list \<Rightarrow> api_error + row list" where
  "check_files octokit owner repo headSha ts =
     promise_all (map (check_target octokit owner repo headSha) ts)"

text \<open>Every target's request is sent before any answer is awaited.\<close>

definition contents_requests :: "jsval \<Rightarrow> jsval \<Rightarrow> jsval \<Rightarrow> string list \<Rightarrow> api_call list" where
  "contents_requests owner repo headSha ts = map (\<lambda>p. GetContents owner repo p headSha) ts"

text \<open>Lines 95-115: the verdict and the request that completes the check run.\<close>

definition completed_request :: "jsval \<Rightarrow> jsval \<Rightarrow> jsval \<Rightarrow> row list \<Rightarrow> api_call" where
  "completed_request owner repo check_id existence =
     (let allPass = list_all pass existence;
          table = renderTable existence;
          summary = string_of_nat (length (filter pass existence)) @ '' / ''
                      @ string_of_nat (length existence) @ '' required files present'';
          conclusion = (if allPass then ''success'' else ''failure'')
      in PatchCheckRun owner repo check_id ''completed'' conclusion
           (Output (''Compliance (files): '' @ (if allPass then ''PASSED'' else ''FAILED''))
                   summary
                   (''### Required files'' @ newline @ table)))"

text \<open>Lines 132-147: the request of the catch block.\<close>

definition error_request :: "jsval \<Rightarrow> jsval \<Rightarrow> jsval \<Rightarrow> api_call" where
  "error_request owner repo check_id =
     PatchCheckRun owner repo check_id ''completed'' ''failure''
       (Output ''Compliance (files): ERROR''
               ''Error while performing required-file checks''
               ''See app logs for details.'')"

text \<open>
  The body of the \<^verbatim>\<open>try\<close> (lines 86-128): the calls it made, and whether it threw.
\<close>

definition try_block ::
  "remote \<Rightarrow> jsval \<Rightarrow> jsval \<Rightarrow> jsval \<Rightarrow> jsval \<Rightarrow> jsval \<Rightarrow> api_call list \<times> (api_error + unit)" where
  "try_block octokit owner repo headSha prNumber check_id =
     (let gets = contents_requests owner repo headSha targets in
      case check_files octokit owner repo headSha targets of
        Inl err \<Rightarrow> (gets, Inl err)
      | Inr existence \<Rightarrow>
          (let patch = completed_request owner repo check_id existence in
           case octokit patch of
             Inl err \<Rightarrow> (gets @ [patch], Inl err)
           | Inr _ \<Rightarrow>
               (let comment = PostComment owner repo prNumber (renderComment existence) in
                case octokit comment of
                  Inl err \<Rightarrow> (gets @ [patch, comment], Inl err)
                | Inr _ \<Rightarrow> (gets @ [patch, comment], Inr ()))))"

text \<open>
  The \<^verbatim>\<open>catch\<close> (lines 129-149): one request; its own failure is swallowed by the inner
  \<^verbatim>\<open>catch {}\<close>.
\<close>

definition catch_block :: "remote \<Rightarrow> jsval \<Rightarrow> jsval \<Rightarrow> jsval \<Rightarrow> api_call list \<times> outcome" where
  "catch_block octokit owner repo check_id =
     (let patch = error_request owner repo check_id in
      case octokit patch of
        Inl e2 \<Rightarrow> ([patch], Returned)
      | Inr _ \<Rightarrow> ([patch], Returned))"

text \<open>Line 69: the fields without which the event is dropped.\<close>

definition missing_fields :: "payload \<Rightarrow> bool" where
  "missing_fields payload =
     (let installationId = installation_id payload;
          owner = owner_login payload;
          repo = repository_name payload;
          headSha = head_sha payload;
          prNumber = number payload
      in \<not> truthy installationId \<or> \<not> truthy owner \<or> \<not> truthy repo
           \<or> \<not> truthy headSha \<or> \<not> truthy prNumber)"

definition handler :: "remote \<Rightarrow> payload \<Rightarrow> run" where
  "handler remote payload =
     (if \<not> actionable (action payload) then \<lparr>calls = [], result = Returned\<rparr>
      else if missing_fields payload then \<lparr>calls = [], result = Returned\<rparr>
      else
       (let installationId = installation_id payload;
            owner = owner_login payload;
            repo = repository_name payload;
            headSha = head_sha payload;
            prNumber = number payload;
            auth = GetInstallationOctokit installationId
        in
        case remote auth of
          Inl e \<Rightarrow> \<lparr>calls = [auth], result = Rejected e\<rparr>
        | Inr _ \<Rightarrow>
           (let create = create_request owner repo headSha in
            case remote create of
              Inl e \<Rightarrow> \<lparr>calls = [auth, create], result = Rejected e\<rparr>
            | Inr check_id \<Rightarrow>
               (case try_block remote owner repo headSha prNumber check_id of
                  (tr, Inr _) \<Rightarrow> \<lparr>calls = [auth, create] @ tr, result = Returned\<rparr>
                | (tr, Inl err) \<Rightarrow>
                   (case catch_block remote owner repo check_id of
                      (tr2, res) \<Rightarrow>
                        \<lparr>calls = [auth, create] @ tr @ tr2, result = res\<rparr>)))))"

section \<open>The demonstration handler (src/unnamed/part_000)\<close>

datatype demo_check = Check (c_name: string) (c_pass: bool) (description: string)

text \<open>
  Lines 68-98. \<^verbatim>\<open>Math.random()\<close> is an input of the model: \<open>random\<close> is the number
  drawn, in the interval from 0 (included) to 1 (excluded). The two-second timer always
  fires and sends nothing.
\<close>

definition demo_checks :: "bool \<Rightarrow> demo_check list" where
  "demo_checks compliant =
     [Check ''No Critical Vulns'' compliant
        (if compliant then ''OK'' else ''Found 1 critical (demo)''),
      Check ''License Policy'' True ''OK'',
      Check ''Sonar Quality Gate'' True ''OK'']"

definition demo_row :: "demo_check \<Rightarrow> string" where
  "demo_row c =
     ''| '' @ c_name c @ '' | '' @ (if c_pass c then check_mark else cross_mark)
       @ '' | '' @ description c @ '' |''"

definition demo_completed_request :: "jsval \<Rightarrow> jsval \<Rightarrow> jsval \<Rightarrow> real \<Rightarrow> api_call" where
  "demo_completed_request owner repo check_id random =
     (let compliant = (random > 0.5);
          checks = demo_checks compliant;
          passedCount = length (filter c_pass checks);
          rows = join newline (map demo_row checks);
          table = table_head @ rows;
          summary = string_of_nat passedCount @ '' / '' @ string_of_nat (length checks)
                      @ '' checks passed'';
          conclusion = (if compliant then ''success'' else ''failure'')
      in PatchCheckRun owner repo check_id ''completed'' conclusion
           (Output (''Compliance: '' @ (if compliant then ''PASSED'' else ''FAILED''))
                   summary
                   (''### Checks'' @ newline @ table)))"

definition demo_error_request :: "jsval \<Rightarrow> jsval \<Rightarrow> jsval \<Rightarrow> api_call" where
  "demo_error_request owner repo check_id =
     PatchCheckRun owner repo check_id ''completed'' ''failure''
       (Output ''Compliance: ERROR'' ''Compliance run failed'' ''See server logs for details.'')"

definition demo_try_block ::
  "remote \<Rightarrow> jsval \<Rightarrow> jsval \<Rightarrow> jsval \<Rightarrow> real \<Rightarrow> api_call list \<times> (api_error + unit)" where
  "demo_try_block octokit owner repo check_id random =
     (let patch = demo_completed_request owner repo check_id random in
      case octokit patch of
        Inl err \<Rightarrow> ([patch], Inl err)
      | Inr _ \<Rightarrow> ([patch], Inr ()))"

definition demo_catch_block :: "remote \<Rightarrow> jsval \<Rightarrow> jsval \<Rightarrow> jsval \<Rightarrow> api_call list \<times> outcome" where
  "demo_catch_block octokit owner repo check_id =
     (let patch = demo_error_request owner repo check_id in
      case octokit patch of
        Inl e2 \<Rightarrow> ([patch], Returned)
      | Inr _ \<Rightarrow> ([patch], Returned))"

text \<open>Line 44 of the demonstration handler.\<close>

definition demo_missing_fields :: "payload \<Rightarrow> bool" where
  "demo_missing_fields payload =
     (let installationId = installation_id payload;
          owner = owner_login payload;
          repo = repository_name payload;
          headSha = head_sha payload
      in \<not> truthy installationId \<or> \<not> truthy owner \<or> \<not> truthy repo \<or> \<not> truthy headSha)"

definition demo_handler :: "remote \<Rightarrow> real \<Rightarrow> payload \<Rightarrow> run" where
  "demo_handler remote random payload =
     (if \<not> actionable (action payload) then \<lparr>calls = [], result = Returned\<rparr>
      else if demo_missing_fields payload then \<lparr>calls = [], result = Returned\<rparr>
      else
       (let installationId = installation_id payload;
            owner = owner_login payload;
            repo = repository_name payload;
            headSha = head_sha payload;
            auth = GetInstallationOctokit installationId
        in
        case remote auth of
          Inl e \<Rightarrow> \<lparr>calls = [auth], result = Rejected e\<rparr>
        | Inr _ \<Rightarrow>
           (let create = create_request owner repo headSha in
            case remote create of
              Inl e \<Rightarrow> \<lparr>calls = [auth, create], result = Rejected e\<rparr>
            | Inr check_id \<Rightarrow>
               (case demo_try_block remote owner repo check_id random of
                  (tr, Inr _) \<Rightarrow> \<lparr>calls = [auth, create] @ tr, result = Returned\<rparr>
                | (tr, Inl err) \<Rightarrow>
                   (case demo_catch_block remote owner repo check_id of
                      (tr2, res) \<Rightarrow>
                        \<lparr>calls = [auth, create] @ tr @ tr2, result = res\<rparr>)))))"

section \<open>Reading a run\<close>

text \<open>The requests of a run that complete a check run, and what they carry.\<close>

fun is_finalize :: "api_call \<Rightarrow> bool" where
  "is_finalize (PatchCheckRun owner repo check_id st conclusion out) = (st = ''completed'')"
| "is_finalize _ = False"

fun is_comment :: "api_call \<Rightarrow> bool" where
  "is_comment (PostComment owner repo issue body) = True"
| "is_comment _ = False"

fun conclusion_of :: "api_call \<Rightarrow> string" where
  "conclusion_of (PatchCheckRun owner repo check_id st conclusion out) = conclusion"
| "conclusion_of _ = []"

definition finalizes :: "run \<Rightarrow> api_call list" where
  "finalizes r = filter is_finalize (calls r)"




section \<open>Example events and remote sides\<close>

definition example_event :: payload where
  "example_event =
     \<lparr>action = JStr ''opened'', installation_id = JNum 7, owner_login = JStr ''octo'',
      repository_name = JStr ''demo'', head_sha = JStr ''abc123'', number = JNum 5,
      head_ref = JStr ''main''\<rparr>"

text \<open>Every call succeeds; the check run created has id 42.\<close>

definition all_ok :: remote where
  "all_ok c = Inr (JNum 42)"

text \<open>The same event without \<^verbatim>\<open>payload.number\<close>, and with the number 0.\<close>

definition event_without_number :: payload where
  "event_without_number = example_event\<lparr>number := JUndefined\<rparr>"

definition event_number_zero :: payload where
  "event_number_zero = example_event\<lparr>number := JNum 0\<rparr>"

definition closed_event :: payload where
  "closed_event = example_event\<lparr>action := JStr ''closed''\<rparr>"


text \<open>Authentication is refused with status 401.\<close>

definition auth_unauthorized :: remote where
  "auth_unauthorized c =
     (case c of GetInstallationOctokit i \<Rightarrow> Inl (ApiError (Some 401)) | _ \<Rightarrow> Inr (JNum 42))"

text \<open>The creation of the check run is refused with status 403.\<close>

definition create_forbidden :: remote where
  "create_forbidden c =
     (case c of PostCheckRun ow rp nm sha st \<Rightarrow> Inl (ApiError (Some 403)) | _ \<Rightarrow> Inr (JNum 42))"

text \<open>CONTRIBUTING.md is absent (status 404); README.md is there.\<close>

definition contributing_absent :: remote where
  "contributing_absent c =
     (case c of
        GetContents ow rp path ref \<Rightarrow>
          (if path = ''CONTRIBUTING.md'' then Inl (ApiError (Some 404)) else Inr JObj)
      | _ \<Rightarrow> Inr (JNum 42))"

text \<open>The contents query for README.md fails with status 500.\<close>

definition contents_unavailable :: remote where
  "contents_unavailable c =
     (case c of
        GetContents ow rp path ref \<Rightarrow>
          (if path = ''README.md'' then Inl (ApiError (Some 500)) else Inr JObj)
      | _ \<Rightarrow> Inr (JNum 42))"

text \<open>
  The request carrying a computed report is rejected with status 422; the requests
  carrying the error report are accepted.
\<close>

definition rejects_computed_report :: remote where
  "rejects_computed_report c =
     (case c of
        PatchCheckRun ow rp cid st conclusion out \<Rightarrow>
          (if title out = ''Compliance (files): ERROR'' \<or> title out = ''Compliance: ERROR''
           then Inr JObj else Inl (ApiError (Some 422)))
      | _ \<Rightarrow> Inr (JNum 42))"

text \<open>Posting the comment is refused with status 403; every other call succeeds.\<close>

definition comment_forbidden :: remote where
  "comment_forbidden c =
     (case c of PostComment ow rp n body \<Rightarrow> Inl (ApiError (Some 403)) | _ \<Rightarrow> Inr (JNum 42))"

section \<open>The shape of a run\<close>

lemma catch_block_eq:
  "catch_block remote ow rp cid = ([error_request ow rp cid], Returned)"
  by (simp add: catch_block_def split: sum.split)

lemma demo_catch_block_eq:
  "demo_catch_block remote ow rp cid = ([demo_error_request ow rp cid], Returned)"
  by (simp add: demo_catch_block_def split: sum.split)

lemma handler_dropped:
  "\<not> actionable (action p) \<or> missing_fields p \<Longrightarrow>
     handler remote p = \<lparr>calls = [], result = Returned\<rparr>"
  by (auto simp: handler_def)

lemma handler_auth_fails:
  assumes "actionable (action p)" and "\<not> missing_fields p"
    and "remote (GetInstallationOctokit (installation_id p)) = Inl e"
  shows "handler remote p =
           \<lparr>calls = [GetInstallationOctokit (installation_id p)], result = Rejected e\<rparr>"
  using assms by (simp add: handler_def)

lemma handler_create_fails:
  assumes "actionable (action p)" and "\<not> missing_fields p"
    and "remote (GetInstallationOctokit (installation_id p)) = Inr a"
    and "remote (create_request (owner_login p) (repository_name p) (head_sha p)) = Inl e"
  shows "handler remote p =
           \<lparr>calls = [GetInstallationOctokit (installation_id p),
                     create_request (owner_login p) (repository_name p) (head_sha p)],
            result = Rejected e\<rparr>"
  using assms by (simp add: handler_def)

lemma handler_created:
  assumes "actionable (action p)" and "\<not> missing_fields p"
    and "remote (GetInstallationOctokit (installation_id p)) = Inr a"
    and "remote (create_request (owner_login p) (repository_name p) (head_sha p)) = Inr cid"
  shows "handler remote p =
           (let tb = try_block remote (owner_login p) (repository_name p) (head_sha p)
                       (number p) cid
            in \<lparr>calls = [GetInstallationOctokit (installation_id p),
                         create_request (owner_login p) (repository_name p) (head_sha p)]
                        @ fst tb
                        @ (if isl (snd tb)
                           then [error_request (owner_login p) (repository_name p) cid]
                           else []),
                result = Returned\<rparr>)"
  using assms
  by (simp add: handler_def Let_def catch_block_eq split: prod.split sum.split)

lemma demo_handler_created:
  assumes "actionable (action p)" and "\<not> demo_missing_fields p"
    and "remote (GetInstallationOctokit (installation_id p)) = Inr a"
    and "remote (create_request (owner_login p) (repository_name p) (head_sha p)) = Inr cid"
  shows "demo_handler remote rnd p =
           (let tb = demo_try_block remote (owner_login p) (repository_name p) cid rnd
            in \<lparr>calls = [GetInstallationOctokit (installation_id p),
                         create_request (owner_login p) (repository_name p) (head_sha p)]
                        @ fst tb
                        @ (if isl (snd tb)
                           then [demo_error_request (owner_login p) (repository_name p) cid]
                           else []),
                result = Returned\<rparr>)"
  using assms
  by (simp add: demo_handler_def Let_def demo_catch_block_eq split: prod.split sum.split)

lemma finalize_simps:
  "is_finalize (completed_request ow rp cid ex)"
  "is_finalize (error_request ow rp cid)"
  "is_finalize (demo_completed_request ow rp cid rnd)"
  "is_finalize (demo_error_request ow rp cid)"
  "\<not> is_finalize (create_request ow rp sha)"
  "filter is_finalize (contents_requests ow rp sha ts) = []"
  by (simp_all add: completed_request_def error_request_def demo_completed_request_def
      demo_error_request_def create_request_def contents_requests_def Let_def)

lemma try_block_verification_fails:
  "check_files remote ow rp sha targets = Inl err \<Longrightarrow>
     try_block remote ow rp sha n cid = (contents_requests ow rp sha targets, Inl err)"
  by (simp add: try_block_def)

lemma try_block_patch_fails:
  "check_files remote ow rp sha targets = Inr ex \<Longrightarrow>
   remote (completed_request ow rp cid ex) = Inl err \<Longrightarrow>
     try_block remote ow rp sha n cid =
       (contents_requests ow rp sha targets @ [completed_request ow rp cid ex], Inl err)"
  by (simp add: try_block_def)

lemma try_block_comment_fails:
  "check_files remote ow rp sha targets = Inr ex \<Longrightarrow>
   remote (completed_request ow rp cid ex) = Inr d \<Longrightarrow>
   remote (PostComment ow rp n (renderComment ex)) = Inl err \<Longrightarrow>
     try_block remote ow rp sha n cid =
       (contents_requests ow rp sha targets
          @ [completed_request ow rp cid ex, PostComment ow rp n (renderComment ex)], Inl err)"
  by (simp add: try_block_def)

lemma try_block_succeeds:
  "check_files remote ow rp sha targets = Inr ex \<Longrightarrow>
   remote (completed_request ow rp cid ex) = Inr d \<Longrightarrow>
   remote (PostComment ow rp n (renderComment ex)) = Inr d' \<Longrightarrow>
     try_block remote ow rp sha n cid =
       (contents_requests ow rp sha targets
          @ [completed_request ow rp cid ex, PostComment ow rp n (renderComment ex)], Inr ())"
  by (simp add: try_block_def)

lemma demo_try_block_eq:
  "demo_try_block remote ow rp cid rnd =
     ([demo_completed_request ow rp cid rnd],
      case remote (demo_completed_request ow rp cid rnd) of Inl err \<Rightarrow> Inl err | Inr d \<Rightarrow> Inr ())"
  by (simp add: demo_try_block_def split: sum.split)

subsection \<open>Verification\<close>

lemma promise_all_map_Inr: "promise_all (map Inr xs) = Inr xs"
  by (induction xs) auto

lemma promise_all_Inr_D: "promise_all ps = Inr xs \<Longrightarrow> ps = map Inr xs"
  by (induction ps arbitrary: xs rule: promise_all.induct) (auto split: sum.splits)

lemma promise_all_Inr_iff: "(promise_all ps = Inr xs) = (ps = map Inr xs)"
  using promise_all_map_Inr promise_all_Inr_D by blast

lemma promise_all_Inl:
  "promise_all ps = Inl e \<Longrightarrow> Inl e \<in> set ps"
  by (induction ps rule: promise_all.induct) (auto split: sum.splits)

lemma promise_all_rejects:
  "Inl e \<in> set ps \<Longrightarrow> \<exists>e'. promise_all ps = Inl e'"
  by (induction ps rule: promise_all.induct) (auto split: sum.splits)

lemma example_event_accepted:
  "actionable (action example_event)" "\<not> missing_fields example_event"
  "\<not> demo_missing_fields example_event"
  by (simp_all add: example_event_def actionable_def missing_fields_def demo_missing_fields_def)

section \<open>Failures before the check run exists\<close>

text \<open>
  C8: if authentication or the creation of the check run fails, the handler of
  src/index.js aborts the event: the calls made are the authentication alone, or the
  authentication and the failed creation; the error leaves the handler; no check run is
  finalized and no comment is posted.
\<close>

theorem abort_before_creation:
  "actionable (action p) \<and> \<not> missing_fields p \<longrightarrow>
     (\<forall>e. remote (GetInstallationOctokit (installation_id p)) = Inl e \<longrightarrow>
         handler remote p =
           \<lparr>calls = [GetInstallationOctokit (installation_id p)], result = Rejected e\<rparr>
         \<and> finalizes (handler remote p) = []
         \<and> filter is_comment (calls (handler remote p)) = [])
   \<and> (\<forall>a e. remote (GetInstallationOctokit (installation_id p)) = Inr a
           \<and> remote (create_request (owner_login p) (repository_name p) (head_sha p)) = Inl e \<longrightarrow>
         handler remote p =
           \<lparr>calls = [GetInstallationOctokit (installation_id p),
                     create_request (owner_login p) (repository_name p) (head_sha p)],
            result = Rejected e\<rparr>
         \<and> finalizes (handler remote p) = []
         \<and> filter is_comment (calls (handler remote p)) = [])"
proof (intro impI conjI allI; (elim conjE)?)
  fix e
  assume "actionable (action p)" "\<not> missing_fields p"
    and "remote (GetInstallationOctokit (installation_id p)) = Inl e"
  then have h: "handler remote p =
      \<lparr>calls = [GetInstallationOctokit (installation_id p)], result = Rejected e\<rparr>"
    by (rule handler_auth_fails)
  show "handler remote p =
      \<lparr>calls = [GetInstallationOctokit (installation_id p)], result = Rejected e\<rparr>"
    by (rule h)
  show "finalizes (handler remote p) = []"
    by (simp add: h finalizes_def)
  show "filter is_comment (calls (handler remote p)) = []"
    by (simp add: h)
next
  fix a e
  assume "actionable (action p)" "\<not> missing_fields p"
    and "remote (GetInstallationOctokit (installation_id p)) = Inr a"
    and "remote (create_request (owner_login p) (repository_name p) (head_sha p)) = Inl e"
  then have h: "handler remote p =
      \<lparr>calls = [GetInstallationOctokit (installation_id p),
                create_request (owner_login p) (repository_name p) (head_sha p)],
       result = Rejected e\<rparr>"
    by (rule handler_create_fails)
  show "handler remote p =
      \<lparr>calls = [GetInstallationOctokit (installation_id p),
                create_request (owner_login p) (repository_name p) (head_sha p)],
       result = Rejected e\<rparr>"
    by (rule h)
  show "finalizes (handler remote p) = []"
    by (simp add: h finalizes_def create_request_def)
  show "filter is_comment (calls (handler remote p)) = []"
    by (simp add: h create_request_def)
qed

theorem abort_before_creation_witness:
  "handler auth_unauthorized example_event =
     \<lparr>calls = [GetInstallationOctokit (JNum 7)], result = Rejected (ApiError (Some 401))\<rparr>
   \<and> handler create_forbidden example_event =
     \<lparr>calls = [GetInstallationOctokit (JNum 7),
               PostCheckRun (JStr ''octo'') (JStr ''demo'') ''Compliance'' (JStr ''abc123'')
                 ''in_progress''],
      result = Rejected (ApiError (Some 403))\<rparr>
   \<and> finalizes (handler create_forbidden example_event) = []"
  using abort_before_creation [where p = example_event and remote = auth_unauthorized]
    abort_before_creation [where p = example_event and remote = create_forbidden]
    example_event_accepted
  by (simp add: example_event_def auth_unauthorized_def create_forbidden_def create_request_def
      finalizes_def)

section \<open>The event filter\<close>

text \<open>
  C9: the file-check handler also requires the pull-request number. An actionable event
  with installation id, owner login, repository name and head SHA present whose
  \<^verbatim>\<open>payload.number\<close> is absent or zero (not truthy) is dropped before any call, where
  the demonstration handler, which asks for the four fields only, goes on to
  authenticate.
\<close>

theorem number_required_by_file_check:
  "action p \<in> {JStr ''opened'', JStr ''reopened'', JStr ''synchronize''}
     \<and> truthy (installation_id p) \<and> truthy (owner_login p)
     \<and> truthy (repository_name p) \<and> truthy (head_sha p)
     \<and> \<not> truthy (number p) \<longrightarrow>
   handler remote p = \<lparr>calls = [], result = Returned\<rparr>
     \<and> take 1 (calls (demo_handler remote rnd p)) = [GetInstallationOctokit (installation_id p)]"
  by (auto simp: handler_def demo_handler_def actionable_def missing_fields_def
      demo_missing_fields_def Let_def split: sum.splits prod.splits)

theorem number_required_by_file_check_witness:
  "handler all_ok event_without_number = \<lparr>calls = [], result = Returned\<rparr>
   \<and> handler all_ok event_number_zero = \<lparr>calls = [], result = Returned\<rparr>
   \<and> take 1 (calls (demo_handler all_ok (7/10) event_number_zero))
       = [GetInstallationOctokit (JNum 7)]"
  using number_required_by_file_check [where p = event_without_number and remote = all_ok]
    number_required_by_file_check [where p = event_number_zero and remote = all_ok and rnd = "7/10"]
  by (simp add: event_without_number_def event_number_zero_def example_event_def)

lemma demo_handler_dropped:
  "\<not> actionable (action p) \<or> demo_missing_fields p \<Longrightarrow>
     demo_handler remote rnd p = \<lparr>calls = [], result = Returned\<rparr>"
  by (auto simp: demo_handler_def)

lemma handler_first_calls:
  assumes "actionable (action p)" and "\<not> missing_fields p"
  shows "take 1 (calls (handler remote p)) = [GetInstallationOctokit (installation_id p)]"
    and "remote (GetInstallationOctokit (installation_id p)) = Inr a \<Longrightarrow>
         take 2 (calls (handler remote p)) =
           [GetInstallationOctokit (installation_id p),
            create_request (owner_login p) (repository_name p) (head_sha p)]"
  using assms
  by (simp_all add: handler_def Let_def catch_block_eq split: sum.split prod.split)

lemma demo_handler_first_calls:
  assumes "actionable (action p)" and "\<not> demo_missing_fields p"
  shows "take 1 (calls (demo_handler remote rnd p)) = [GetInstallationOctokit (installation_id p)]"
    and "remote (GetInstallationOctokit (installation_id p)) = Inr a \<Longrightarrow>
         take 2 (calls (demo_handler remote rnd p)) =
           [GetInstallationOctokit (installation_id p),
            create_request (owner_login p) (repository_name p) (head_sha p)]"
  using assms
  by (simp_all add: demo_handler_def Let_def demo_catch_block_eq split: sum.split prod.split)

lemma missing_fields_iff:
  "missing_fields p \<longleftrightarrow>
     \<not> truthy (installation_id p) \<or> \<not> truthy (owner_login p) \<or> \<not> truthy (repository_name p)
       \<or> \<not> truthy (head_sha p) \<or> \<not> truthy (number p)"
  by (simp add: missing_fields_def)

lemma demo_missing_fields_iff:
  "demo_missing_fields p \<longleftrightarrow>
     \<not> truthy (installation_id p) \<or> \<not> truthy (owner_login p) \<or> \<not> truthy (repository_name p)
       \<or> \<not> truthy (head_sha p)"
  by (simp add: demo_missing_fields_def)

lemma actionable_iff:
  "actionable a \<longleftrightarrow> a \<in> {JStr ''opened'', JStr ''reopened'', JStr ''synchronize''}"
  by (simp add: actionable_def)

lemma handler_no_calls_iff:
  "calls (handler remote p) = [] \<longleftrightarrow> \<not> actionable (action p) \<or> missing_fields p"
proof
  assume none: "calls (handler remote p) = []"
  show "\<not> actionable (action p) \<or> missing_fields p"
  proof (rule ccontr)
    assume "\<not> (\<not> actionable (action p) \<or> missing_fields p)"
    then have "take 1 (calls (handler remote p)) = [GetInstallationOctokit (installation_id p)]"
      using handler_first_calls(1) by blast
    with none show False by simp
  qed
next
  assume "\<not> actionable (action p) \<or> missing_fields p"
  then show "calls (handler remote p) = []"
    by (simp add: handler_dropped)
qed

lemma demo_handler_no_calls_iff:
  "calls (demo_handler remote rnd p) = [] \<longleftrightarrow> \<not> actionable (action p) \<or> demo_missing_fields p"
proof
  assume none: "calls (demo_handler remote rnd p) = []"
  show "\<not> actionable (action p) \<or> demo_missing_fields p"
  proof (rule ccontr)
    assume "\<not> (\<not> actionable (action p) \<or> demo_missing_fields p)"
    then have "take 1 (calls (demo_handler remote rnd p)) = [GetInstallationOctokit (installation_id p)]"
      using demo_handler_first_calls(1) by blast
    with none show False by simp
  qed
next
  assume "\<not> actionable (action p) \<or> demo_missing_fields p"
  then show "calls (demo_handler remote rnd p) = []"
    by (simp add: demo_handler_dropped)
qed

text \<open>
  C6, as amended: a handler makes no call, and returns normally, exactly when the action
  is not one of opened, reopened, synchronize, or one of installation id, owner login,
  repository name, head SHA is not truthy (absent, null, false, 0 or the empty string),
  or, in the file-check handler, the pull-request number is not truthy. Otherwise its
  first call is the authentication, and when that succeeds its second call creates the
  check run named Compliance, in progress, at the head SHA.
\<close>

theorem event_filter:
  "(calls (handler remote p) = [] \<longleftrightarrow>
      action p \<notin> {JStr ''opened'', JStr ''reopened'', JStr ''synchronize''}
      \<or> \<not> truthy (installation_id p) \<or> \<not> truthy (owner_login p)
      \<or> \<not> truthy (repository_name p) \<or> \<not> truthy (head_sha p) \<or> \<not> truthy (number p))
   \<and> (calls (handler remote p) = [] \<longrightarrow> result (handler remote p) = Returned)
   \<and> (calls (handler remote p) \<noteq> [] \<longrightarrow>
        take 1 (calls (handler remote p)) = [GetInstallationOctokit (installation_id p)])
   \<and> (\<forall>a. calls (handler remote p) \<noteq> []
          \<and> remote (GetInstallationOctokit (installation_id p)) = Inr a \<longrightarrow>
        take 2 (calls (handler remote p)) =
          [GetInstallationOctokit (installation_id p),
           PostCheckRun (owner_login p) (repository_name p) ''Compliance'' (head_sha p)
             ''in_progress''])
   \<and> (calls (demo_handler remote rnd p) = [] \<longleftrightarrow>
      action p \<notin> {JStr ''opened'', JStr ''reopened'', JStr ''synchronize''}
      \<or> \<not> truthy (installation_id p) \<or> \<not> truthy (owner_login p)
      \<or> \<not> truthy (repository_name p) \<or> \<not> truthy (head_sha p))
   \<and> (calls (demo_handler remote rnd p) = [] \<longrightarrow> result (demo_handler remote rnd p) = Returned)
   \<and> (calls (demo_handler remote rnd p) \<noteq> [] \<longrightarrow>
        take 1 (calls (demo_handler remote rnd p)) = [GetInstallationOctokit (installation_id p)])
   \<and> (\<forall>a. calls (demo_handler remote rnd p) \<noteq> []
          \<and> remote (GetInstallationOctokit (installation_id p)) = Inr a \<longrightarrow>
        take 2 (calls (demo_handler remote rnd p)) =
          [GetInstallationOctokit (installation_id p),
           PostCheckRun (owner_login p) (repository_name p) ''Compliance'' (head_sha p)
             ''in_progress''])"
proof (intro conjI)
  show "calls (handler remote p) = [] \<longleftrightarrow>
      action p \<notin> {JStr ''opened'', JStr ''reopened'', JStr ''synchronize''}
      \<or> \<not> truthy (installation_id p) \<or> \<not> truthy (owner_login p)
      \<or> \<not> truthy (repository_name p) \<or> \<not> truthy (head_sha p) \<or> \<not> truthy (number p)"
    unfolding handler_no_calls_iff missing_fields_iff actionable_iff by (rule refl)
  show "calls (handler remote p) = [] \<longrightarrow> result (handler remote p) = Returned"
    unfolding handler_no_calls_iff by (auto simp: handler_dropped)
  show "calls (handler remote p) \<noteq> [] \<longrightarrow>
        take 1 (calls (handler remote p)) = [GetInstallationOctokit (installation_id p)]"
    unfolding handler_no_calls_iff using handler_first_calls(1) by blast
  show "\<forall>a. calls (handler remote p) \<noteq> []
          \<and> remote (GetInstallationOctokit (installation_id p)) = Inr a \<longrightarrow>
        take 2 (calls (handler remote p)) =
          [GetInstallationOctokit (installation_id p),
           PostCheckRun (owner_login p) (repository_name p) ''Compliance'' (head_sha p)
             ''in_progress'']"
    unfolding handler_no_calls_iff
    using handler_first_calls(2) [of p remote] by (auto simp: create_request_def)
  show "calls (demo_handler remote rnd p) = [] \<longleftrightarrow>
      action p \<notin> {JStr ''opened'', JStr ''reopened'', JStr ''synchronize''}
      \<or> \<not> truthy (installation_id p) \<or> \<not> truthy (owner_login p)
      \<or> \<not> truthy (repository_name p) \<or> \<not> truthy (head_sha p)"
    unfolding demo_handler_no_calls_iff demo_missing_fields_iff actionable_iff by (rule refl)
  show "calls (demo_handler remote rnd p) = [] \<longrightarrow> result (demo_handler remote rnd p) = Returned"
    unfolding demo_handler_no_calls_iff by (auto simp: demo_handler_dropped)
  show "calls (demo_handler remote rnd p) \<noteq> [] \<longrightarrow>
        take 1 (calls (demo_handler remote rnd p)) = [GetInstallationOctokit (installation_id p)]"
    unfolding demo_handler_no_calls_iff using demo_handler_first_calls(1) by blast
  show "\<forall>a. calls (demo_handler remote rnd p) \<noteq> []
          \<and> remote (GetInstallationOctokit (installation_id p)) = Inr a \<longrightarrow>
        take 2 (calls (demo_handler remote rnd p)) =
          [GetInstallationOctokit (installation_id p),
           PostCheckRun (owner_login p) (repository_name p) ''Compliance'' (head_sha p)
             ''in_progress'']"
    unfolding demo_handler_no_calls_iff
    using demo_handler_first_calls(2) [of p remote] by (auto simp: create_request_def)
qed

theorem event_filter_witness:
  "calls (handler all_ok closed_event) = []
   \<and> result (handler all_ok closed_event) = Returned
   \<and> take 2 (calls (handler all_ok example_event)) =
       [GetInstallationOctokit (JNum 7),
        PostCheckRun (JStr ''octo'') (JStr ''demo'') ''Compliance'' (JStr ''abc123'')
          ''in_progress'']
   \<and> take 2 (calls (demo_handler all_ok (7/10) event_without_number)) =
       [GetInstallationOctokit (JNum 7),
        PostCheckRun (JStr ''octo'') (JStr ''demo'') ''Compliance'' (JStr ''abc123'')
          ''in_progress'']"
  using event_filter [where p = closed_event and remote = all_ok]
    event_filter [where p = example_event and remote = all_ok]
    event_filter [where p = event_without_number and remote = all_ok and rnd = "7/10"]
  by (simp add: closed_event_def example_event_def event_without_number_def all_ok_def)

theorem event_filter_counterexample:
  "action event_without_number \<in> {JStr ''opened'', JStr ''reopened'', JStr ''synchronize''}
   \<and> truthy (installation_id event_without_number)
   \<and> truthy (owner_login event_without_number)
   \<and> truthy (repository_name event_without_number)
   \<and> truthy (head_sha event_without_number)
   \<and> calls (handler all_ok event_without_number) = []"
  by (simp add: event_without_number_def example_event_def handler_def actionable_def
      missing_fields_def)

lemma fileExists_found:
  "remote (GetContents ow rp path ref) = Inr d \<Longrightarrow> fileExists remote ow rp path ref = Inr True"
  by (simp add: fileExists_def)

lemma fileExists_not_found:
  "remote (GetContents ow rp path ref) = Inl e \<Longrightarrow> status e = Some 404 \<Longrightarrow>
     fileExists remote ow rp path ref = Inr False"
  by (simp add: fileExists_def)

lemma fileExists_throws:
  "remote (GetContents ow rp path ref) = Inl e \<Longrightarrow> status e \<noteq> Some 404 \<Longrightarrow>
     fileExists remote ow rp path ref = Inl e"
  by (simp add: fileExists_def)

lemma check_target_Inl_D:
  "check_target remote ow rp sha t = Inl e \<Longrightarrow>
     remote (GetContents ow rp t sha) = Inl e \<and> status e \<noteq> Some 404"
  by (auto simp: check_target_def fileExists_def split: sum.splits if_splits)

lemma check_target_answered:
  assumes "\<forall>e. remote (GetContents ow rp t sha) = Inl e \<longrightarrow> status e = Some 404"
  shows "check_target remote ow rp sha t =
           Inr \<lparr>name = t, pass = \<not> isl (remote (GetContents ow rp t sha)),
                rnotes = ''Checked at repo root''\<rparr>"
  using assms by (auto simp: check_target_def fileExists_def split: sum.splits)

lemma check_files_Inl_D:
  assumes "check_files remote ow rp sha ts = Inl e"
  shows "\<exists>t\<in>set ts. remote (GetContents ow rp t sha) = Inl e \<and> status e \<noteq> Some 404"
proof -
  from assms have "Inl e \<in> set (map (check_target remote ow rp sha) ts)"
    unfolding check_files_def by (rule promise_all_Inl)
  then obtain t where "t \<in> set ts" and "check_target remote ow rp sha t = Inl e"
    by auto
  then show ?thesis
    using check_target_Inl_D by blast
qed

lemma check_files_answered:
  assumes "\<forall>t\<in>set ts. \<forall>e. remote (GetContents ow rp t sha) = Inl e \<longrightarrow> status e = Some 404"
  shows "check_files remote ow rp sha ts =
           Inr (map (\<lambda>t. \<lparr>name = t, pass = \<not> isl (remote (GetContents ow rp t sha)),
                           rnotes = ''Checked at repo root''\<rparr>) ts)"
  unfolding check_files_def promise_all_Inr_iff
  using assms by (simp add: check_target_answered)

lemma check_files_aborts:
  assumes "t \<in> set ts" and "remote (GetContents ow rp t sha) = Inl e"
    and "status e \<noteq> Some 404"
  shows "\<exists>e'. check_files remote ow rp sha ts = Inl e' \<and> status e' \<noteq> Some 404"
proof -
  have "check_target remote ow rp sha t = Inl e"
    using assms(2,3) by (simp add: check_target_def fileExists_throws)
  then have "Inl e = check_target remote ow rp sha t"
    by simp
  then have "Inl e \<in> check_target remote ow rp sha ` set ts"
    using assms(1) by (rule image_eqI)
  then have "Inl e \<in> set (map (check_target remote ow rp sha) ts)"
    by simp
  then have "\<exists>e'. promise_all (map (check_target remote ow rp sha) ts) = Inl e'"
    by (rule promise_all_rejects)
  then obtain e' where e': "check_files remote ow rp sha ts = Inl e'"
    unfolding check_files_def by (rule exE)
  from check_files_Inl_D [OF e'] have "status e' \<noteq> Some 404"
    by (rule bexE) simp
  with e' show ?thesis
    by (intro exI conjI)
qed

lemma handler_verification_fails:
  assumes "actionable (action p)" and "\<not> missing_fields p"
    and "remote (GetInstallationOctokit (installation_id p)) = Inr a"
    and "remote (create_request (owner_login p) (repository_name p) (head_sha p)) = Inr cid"
    and "check_files remote (owner_login p) (repository_name p) (head_sha p) targets = Inl err"
  shows "handler remote p =
           \<lparr>calls = [GetInstallationOctokit (installation_id p),
                     create_request (owner_login p) (repository_name p) (head_sha p)]
                    @ contents_requests (owner_login p) (repository_name p) (head_sha p) targets
                    @ [error_request (owner_login p) (repository_name p) cid],
            result = Returned\<rparr>"
  using handler_created [OF assms(1-4)] try_block_verification_fails [OF assms(5)]
  by (simp add: Let_def)

lemma handler_patch_fails:
  assumes "actionable (action p)" and "\<not> missing_fields p"
    and "remote (GetInstallationOctokit (installation_id p)) = Inr a"
    and "remote (create_request (owner_login p) (repository_name p) (head_sha p)) = Inr cid"
    and "check_files remote (owner_login p) (repository_name p) (head_sha p) targets = Inr ex"
    and "remote (completed_request (owner_login p) (repository_name p) cid ex) = Inl err"
  shows "handler remote p =
           \<lparr>calls = [GetInstallationOctokit (installation_id p),
                     create_request (owner_login p) (repository_name p) (head_sha p)]
                    @ contents_requests (owner_login p) (repository_name p) (head_sha p) targets
                    @ [completed_request (owner_login p) (repository_name p) cid ex,
                       error_request (owner_login p) (repository_name p) cid],
            result = Returned\<rparr>"
  using handler_created [OF assms(1-4)] try_block_patch_fails [OF assms(5,6)]
  by (simp add: Let_def)

lemma handler_comment_fails:
  assumes "actionable (action p)" and "\<not> missing_fields p"
    and "remote (GetInstallationOctokit (installation_id p)) = Inr a"
    and "remote (create_request (owner_login p) (repository_name p) (head_sha p)) = Inr cid"
    and "check_files remote (owner_login p) (repository_name p) (head_sha p) targets = Inr ex"
    and "remote (completed_request (owner_login p) (repository_name p) cid ex) = Inr d"
    and "remote (PostComment (owner_login p) (repository_name p) (number p) (renderComment ex))
           = Inl err"
  shows "handler remote p =
           \<lparr>calls = [GetInstallationOctokit (installation_id p),
                     create_request (owner_login p) (repository_name p) (head_sha p)]
                    @ contents_requests (owner_login p) (repository_name p) (head_sha p) targets
                    @ [completed_request (owner_login p) (repository_name p) cid ex,
                       PostComment (owner_login p) (repository_name p) (number p)
                         (renderComment ex),
                       error_request (owner_login p) (repository_name p) cid],
            result = Returned\<rparr>"
  using handler_created [OF assms(1-4)] try_block_comment_fails [OF assms(5,6,7)]
  by (simp add: Let_def)

lemma handler_succeeds:
  assumes "actionable (action p)" and "\<not> missing_fields p"
    and "remote (GetInstallationOctokit (installation_id p)) = Inr a"
    and "remote (create_request (owner_login p) (repository_name p) (head_sha p)) = Inr cid"
    and "check_files remote (owner_login p) (repository_name p) (head_sha p) targets = Inr ex"
    and "remote (completed_request (owner_login p) (repository_name p) cid ex) = Inr d"
    and "remote (PostComment (owner_login p) (repository_name p) (number p) (renderComment ex))
           = Inr d'"
  shows "handler remote p =
           \<lparr>calls = [GetInstallationOctokit (installation_id p),
                     create_request (owner_login p) (repository_name p) (head_sha p)]
                    @ contents_requests (owner_login p) (repository_name p) (head_sha p) targets
                    @ [completed_request (owner_login p) (repository_name p) cid ex,
                       PostComment (owner_login p) (repository_name p) (number p)
                         (renderComment ex)],
            result = Returned\<rparr>"
  using handler_created [OF assms(1-4)] try_block_succeeds [OF assms(5,6,7)]
  by (simp add: Let_def)

section \<open>The required-file rule\<close>

text \<open>
  C5: for the required-file rule a 404 answer of the contents query is a normal result
  with pass = false, and verification goes on: when every failing query failed with 404,
  \<open>check_files\<close> returns one row per target, in order. An error whose status is not
  404 leaves \<open>fileExists\<close> and the rule and makes \<open>check_files\<close> fail. In the
  handler it leads to the catch block: after the two contents queries the only request is
  the PATCH that completes the check run with the conclusion failure and the error
  report; no comment is posted and the handler returns normally.
\<close>

theorem required_file_rule:
  "(\<forall>e. remote (GetContents ow rp path ref) = Inl e \<and> status e = Some 404 \<longrightarrow>
       fileExists remote ow rp path ref = Inr False
       \<and> check_target remote ow rp ref path =
           Inr \<lparr>name = path, pass = False, rnotes = ''Checked at repo root''\<rparr>)
   \<and> (\<forall>e. remote (GetContents ow rp path ref) = Inl e \<and> status e \<noteq> Some 404 \<longrightarrow>
       fileExists remote ow rp path ref = Inl e
       \<and> check_target remote ow rp ref path = Inl e)
   \<and> ((\<forall>t\<in>set ts. \<forall>e. remote (GetContents ow rp t ref) = Inl e \<longrightarrow> status e = Some 404) \<longrightarrow>
       check_files remote ow rp ref ts =
         Inr (map (\<lambda>t. \<lparr>name = t, pass = \<not> isl (remote (GetContents ow rp t ref)),
                         rnotes = ''Checked at repo root''\<rparr>) ts))
   \<and> ((\<exists>t\<in>set ts. \<exists>e. remote (GetContents ow rp t ref) = Inl e \<and> status e \<noteq> Some 404) \<longrightarrow>
       (\<exists>e'. check_files remote ow rp ref ts = Inl e' \<and> status e' \<noteq> Some 404))
   \<and> (\<forall>a cid.
         action p \<in> {JStr ''opened'', JStr ''reopened'', JStr ''synchronize''}
         \<and> truthy (installation_id p) \<and> truthy (owner_login p)
         \<and> truthy (repository_name p) \<and> truthy (head_sha p) \<and> truthy (number p)
         \<and> remote (GetInstallationOctokit (installation_id p)) = Inr a
         \<and> remote (PostCheckRun (owner_login p) (repository_name p) ''Compliance'' (head_sha p)
               ''in_progress'') = Inr cid
         \<and> (\<exists>t\<in>set [''README.md'', ''CONTRIBUTING.md'']. \<exists>e.
               remote (GetContents (owner_login p) (repository_name p) t (head_sha p)) = Inl e
               \<and> status e \<noteq> Some 404) \<longrightarrow>
         handler remote p =
           \<lparr>calls =
              [GetInstallationOctokit (installation_id p),
               PostCheckRun (owner_login p) (repository_name p) ''Compliance'' (head_sha p)
                 ''in_progress'',
               GetContents (owner_login p) (repository_name p) ''README.md'' (head_sha p),
               GetContents (owner_login p) (repository_name p) ''CONTRIBUTING.md'' (head_sha p),
               PatchCheckRun (owner_login p) (repository_name p) cid ''completed'' ''failure''
                 (Output ''Compliance (files): ERROR''
                    ''Error while performing required-file checks''
                    ''See app logs for details.'')],
            result = Returned\<rparr>
         \<and> map conclusion_of (finalizes (handler remote p)) = [''failure'']
         \<and> filter is_comment (calls (handler remote p)) = [])"
proof -
  have not_found:
    "\<forall>e. remote (GetContents ow rp path ref) = Inl e \<and> status e = Some 404 \<longrightarrow>
       fileExists remote ow rp path ref = Inr False
       \<and> check_target remote ow rp ref path =
           Inr \<lparr>name = path, pass = False, rnotes = ''Checked at repo root''\<rparr>"
    by (simp add: check_target_def fileExists_not_found)
  have throws:
    "\<forall>e. remote (GetContents ow rp path ref) = Inl e \<and> status e \<noteq> Some 404 \<longrightarrow>
       fileExists remote ow rp path ref = Inl e
       \<and> check_target remote ow rp ref path = Inl e"
    by (simp add: check_target_def fileExists_throws)
  have goes_on:
    "(\<forall>t\<in>set ts. \<forall>e. remote (GetContents ow rp t ref) = Inl e \<longrightarrow> status e = Some 404) \<longrightarrow>
       check_files remote ow rp ref ts =
         Inr (map (\<lambda>t. \<lparr>name = t, pass = \<not> isl (remote (GetContents ow rp t ref)),
                         rnotes = ''Checked at repo root''\<rparr>) ts)"
    using check_files_answered by blast
  have aborts:
    "(\<exists>t\<in>set ts. \<exists>e. remote (GetContents ow rp t ref) = Inl e \<and> status e \<noteq> Some 404) \<longrightarrow>
       (\<exists>e'. check_files remote ow rp ref ts = Inl e' \<and> status e' \<noteq> Some 404)"
    using check_files_aborts by blast
  have fails_closed:
    "\<forall>a cid.
         action p \<in> {JStr ''opened'', JStr ''reopened'', JStr ''synchronize''}
         \<and> truthy (installation_id p) \<and> truthy (owner_login p)
         \<and> truthy (repository_name p) \<and> truthy (head_sha p) \<and> truthy (number p)
         \<and> remote (GetInstallationOctokit (installation_id p)) = Inr a
         \<and> remote (PostCheckRun (owner_login p) (repository_name p) ''Compliance'' (head_sha p)
               ''in_progress'') = Inr cid
         \<and> (\<exists>t\<in>set [''README.md'', ''CONTRIBUTING.md'']. \<exists>e.
               remote (GetContents (owner_login p) (repository_name p) t (head_sha p)) = Inl e
               \<and> status e \<noteq> Some 404) \<longrightarrow>
         handler remote p =
           \<lparr>calls =
              [GetInstallationOctokit (installation_id p),
               PostCheckRun (owner_login p) (repository_name p) ''Compliance'' (head_sha p)
                 ''in_progress'',
               GetContents (owner_login p) (repository_name p) ''README.md'' (head_sha p),
               GetContents (owner_login p) (repository_name p) ''CONTRIBUTING.md'' (head_sha p),
               PatchCheckRun (owner_login p) (repository_name p) cid ''completed'' ''failure''
                 (Output ''Compliance (files): ERROR''
                    ''Error while performing required-file checks''
                    ''See app logs for details.'')],
            result = Returned\<rparr>
         \<and> map conclusion_of (finalizes (handler remote p)) = [''failure'']
         \<and> filter is_comment (calls (handler remote p)) = []"
  proof (intro allI impI, elim conjE)
    fix a cid
    assume act: "action p \<in> {JStr ''opened'', JStr ''reopened'', JStr ''synchronize''}"
      and fields: "truthy (installation_id p)" "truthy (owner_login p)"
        "truthy (repository_name p)" "truthy (head_sha p)" "truthy (number p)"
      and auth: "remote (GetInstallationOctokit (installation_id p)) = Inr a"
      and create: "remote (PostCheckRun (owner_login p) (repository_name p) ''Compliance''
          (head_sha p) ''in_progress'') = Inr cid"
      and fault: "\<exists>t\<in>set [''README.md'', ''CONTRIBUTING.md'']. \<exists>e.
          remote (GetContents (owner_login p) (repository_name p) t (head_sha p)) = Inl e
          \<and> status e \<noteq> Some 404"
    have act': "actionable (action p)"
      using act by (simp add: actionable_iff)
    have fields': "\<not> missing_fields p"
      using fields by (simp add: missing_fields_iff)
    have create': "remote (create_request (owner_login p) (repository_name p) (head_sha p))
        = Inr cid"
      using create by (simp add: create_request_def)
    from fault obtain err where
      "check_files remote (owner_login p) (repository_name p) (head_sha p) targets = Inl err"
      unfolding targets_def [symmetric] using check_files_aborts by blast
    then have run: "handler remote p =
           \<lparr>calls =
              [GetInstallationOctokit (installation_id p),
               PostCheckRun (owner_login p) (repository_name p) ''Compliance'' (head_sha p)
                 ''in_progress'',
               GetContents (owner_login p) (repository_name p) ''README.md'' (head_sha p),
               GetContents (owner_login p) (repository_name p) ''CONTRIBUTING.md'' (head_sha p),
               PatchCheckRun (owner_login p) (repository_name p) cid ''completed'' ''failure''
                 (Output ''Compliance (files): ERROR''
                    ''Error while performing required-file checks''
                    ''See app logs for details.'')],
            result = Returned\<rparr>"
      by (simp add: handler_verification_fails [OF act' fields' auth create']
          create_request_def contents_requests_def targets_def error_request_def)
    have concl: "map conclusion_of (finalizes (handler remote p)) = [''failure'']"
      by (simp add: run finalizes_def)
    have no_comment: "filter is_comment (calls (handler remote p)) = []"
      by (simp add: run)
    from run concl no_comment show
      "handler remote p =
           \<lparr>calls =
              [GetInstallationOctokit (installation_id p),
               PostCheckRun (owner_login p) (repository_name p) ''Compliance'' (head_sha p)
                 ''in_progress'',
               GetContents (owner_login p) (repository_name p) ''README.md'' (head_sha p),
               GetContents (owner_login p) (repository_name p) ''CONTRIBUTING.md'' (head_sha p),
               PatchCheckRun (owner_login p) (repository_name p) cid ''completed'' ''failure''
                 (Output ''Compliance (files): ERROR''
                    ''Error while performing required-file checks''
                    ''See app logs for details.'')],
            result = Returned\<rparr>
         \<and> map conclusion_of (finalizes (handler remote p)) = [''failure'']
         \<and> filter is_comment (calls (handler remote p)) = []"
      by (intro conjI)
  qed
  show ?thesis
    by (rule conjI [OF not_found conjI [OF throws conjI [OF goes_on conjI [OF aborts fails_closed]]]])
qed

theorem required_file_rule_witness:
  "check_files contributing_absent (JStr ''octo'') (JStr ''demo'') (JStr ''abc123'')
       [''README.md'', ''CONTRIBUTING.md''] =
     Inr [\<lparr>name = ''README.md'', pass = True, rnotes = ''Checked at repo root''\<rparr>,
          \<lparr>name = ''CONTRIBUTING.md'', pass = False, rnotes = ''Checked at repo root''\<rparr>]
   \<and> fileExists contents_unavailable (JStr ''octo'') (JStr ''demo'') ''README.md'' (JStr ''abc123'')
       = Inl (ApiError (Some 500))
   \<and> handler contents_unavailable example_event =
       \<lparr>calls = [GetInstallationOctokit (JNum 7),
                 PostCheckRun (JStr ''octo'') (JStr ''demo'') ''Compliance'' (JStr ''abc123'')
                   ''in_progress'',
                 GetContents (JStr ''octo'') (JStr ''demo'') ''README.md'' (JStr ''abc123''),
                 GetContents (JStr ''octo'') (JStr ''demo'') ''CONTRIBUTING.md'' (JStr ''abc123''),
                 PatchCheckRun (JStr ''octo'') (JStr ''demo'') (JNum 42) ''completed'' ''failure''
                   (Output ''Compliance (files): ERROR''
                      ''Error while performing required-file checks''
                      ''See app logs for details.'')],
        result = Returned\<rparr>
   \<and> map conclusion_of (finalizes (handler contents_unavailable example_event)) = [''failure'']"
proof -
  note absent = required_file_rule [where remote = contributing_absent and ow = "JStr ''octo''"
      and rp = "JStr ''demo''" and ref = "JStr ''abc123''"
      and ts = "[''README.md'', ''CONTRIBUTING.md'']" and path = "''CONTRIBUTING.md''"]
  note unavailable = required_file_rule [where remote = contents_unavailable
      and ow = "JStr ''octo''" and rp = "JStr ''demo''" and ref = "JStr ''abc123''"
      and path = "''README.md''" and p = example_event]
  have only_404:
    "\<forall>t\<in>set [''README.md'', ''CONTRIBUTING.md'']. \<forall>e.
       contributing_absent (GetContents (JStr ''octo'') (JStr ''demo'') t (JStr ''abc123'')) = Inl e
         \<longrightarrow> status e = Some 404"
    by (auto simp: contributing_absent_def split: if_splits)
  have rows: "check_files contributing_absent (JStr ''octo'') (JStr ''demo'') (JStr ''abc123'')
      [''README.md'', ''CONTRIBUTING.md''] =
     Inr [\<lparr>name = ''README.md'', pass = True, rnotes = ''Checked at repo root''\<rparr>,
          \<lparr>name = ''CONTRIBUTING.md'', pass = False, rnotes = ''Checked at repo root''\<rparr>]"
    using absent [THEN conjunct2, THEN conjunct2, THEN conjunct1, THEN mp, OF only_404]
    by (simp add: contributing_absent_def)
  have status_500:
    "contents_unavailable (GetContents (JStr ''octo'') (JStr ''demo'') ''README.md''
        (JStr ''abc123'')) = Inl (ApiError (Some 500))
     \<and> status (ApiError (Some 500)) \<noteq> Some 404"
    by (simp add: contents_unavailable_def)
  have throws: "fileExists contents_unavailable (JStr ''octo'') (JStr ''demo'') ''README.md''
       (JStr ''abc123'') = Inl (ApiError (Some 500))"
    using unavailable [THEN conjunct2, THEN conjunct1, THEN spec, THEN mp, OF status_500]
    by simp
  have created:
    "action example_event \<in> {JStr ''opened'', JStr ''reopened'', JStr ''synchronize''}
     \<and> truthy (installation_id example_event) \<and> truthy (owner_login example_event)
     \<and> truthy (repository_name example_event) \<and> truthy (head_sha example_event)
     \<and> truthy (number example_event)
     \<and> contents_unavailable (GetInstallationOctokit (installation_id example_event))
          = Inr (JNum 42)
     \<and> contents_unavailable (PostCheckRun (owner_login example_event)
          (repository_name example_event) ''Compliance'' (head_sha example_event)
          ''in_progress'') = Inr (JNum 42)
     \<and> (\<exists>t\<in>set [''README.md'', ''CONTRIBUTING.md'']. \<exists>e.
           contents_unavailable (GetContents (owner_login example_event)
             (repository_name example_event) t (head_sha example_event)) = Inl e
           \<and> status e \<noteq> Some 404)"
    by (simp add: example_event_def contents_unavailable_def)
  note run = unavailable [THEN conjunct2, THEN conjunct2, THEN conjunct2, THEN conjunct2,
        THEN spec, THEN spec, THEN mp, OF created]
  have calls: "handler contents_unavailable example_event =
       \<lparr>calls = [GetInstallationOctokit (JNum 7),
                 PostCheckRun (JStr ''octo'') (JStr ''demo'') ''Compliance'' (JStr ''abc123'')
                   ''in_progress'',
                 GetContents (JStr ''octo'') (JStr ''demo'') ''README.md'' (JStr ''abc123''),
                 GetContents (JStr ''octo'') (JStr ''demo'') ''CONTRIBUTING.md'' (JStr ''abc123''),
                 PatchCheckRun (JStr ''octo'') (JStr ''demo'') (JNum 42) ''completed'' ''failure''
                   (Output ''Compliance (files): ERROR''
                      ''Error while performing required-file checks''
                      ''See app logs for details.'')],
        result = Returned\<rparr>"
    using run [THEN conjunct1] by (simp add: example_event_def)
  have concl: "map conclusion_of (finalizes (handler contents_unavailable example_event))
      = [''failure'']"
    using run [THEN conjunct2, THEN conjunct1] .
  show ?thesis
    by (rule conjI [OF rows conjI [OF throws conjI [OF calls concl]]])
qed

section \<open>Rendering\<close>

lemma join_sublist: "x \<in> set xs \<Longrightarrow> sublist x (join sep xs)"
proof (induction sep xs rule: join.induct)
  case (1 sep)
  then show ?case by simp
next
  case (2 sep y)
  then show ?case by simp
next
  case (3 sep y z zs)
  show ?case
  proof (cases "x = y")
    case True
    then show ?thesis by simp
  next
    case False
    with "3.prems" have "x \<in> set (z # zs)" by simp
    then have "sublist x (join sep (z # zs))" by (rule "3.IH")
    then obtain ps ss where "join sep (z # zs) = ps @ x @ ss"
      unfolding sublist_def by blast
    then have "join sep (y # z # zs) = (y @ sep @ ps) @ x @ ss"
      by simp
    then show ?thesis
      unfolding sublist_def by blast
  qed
qed

lemma no_missing_iff:
  "(length (map name (filter (\<lambda>r. \<not> pass r) rows)) = 0) = list_all pass rows"
  by (simp add: filter_empty_conv list_all_iff)

lemma renderComment_eq:
  "renderComment rows =
     (if list_all pass rows then passed_header
      else failed_header @ join '', '' (map name (filter (\<lambda>r. \<not> pass r) rows)))
     @ newline @ newline @ table_head @ join newline (map render_row rows)"
  unfolding renderComment_def renderTable_def Let_def no_missing_iff by simp

lemma join_Cons_concat: "join sep (x # xs) = x @ concat (map (\<lambda>y. sep @ y) xs)"
  by (induction xs arbitrary: x) simp_all

lemma join_rows:
  "table_head @ join newline (map f rows) =
     ''| Check | Result | Notes |'' @ [CHR 0x0A] @ ''|---|---|---|''
       @ (if rows = [] then [CHR 0x0A] else concat (map (\<lambda>r. [CHR 0x0A] @ f r) rows))"
  by (cases rows) (simp_all add: table_head_def newline_def join_Cons_concat comp_def)

lemma render_row_eq:
  "render_row r =
     ''| '' @ name r @ '' | ''
       @ (if pass r then [CHR 0xE2, CHR 0x9C, CHR 0x85] @ '' Present''
          else [CHR 0xE2, CHR 0x9D, CHR 0x8C] @ '' Missing'')
       @ '' | '' @ rnotes r @ '' |''"
  by (simp add: render_row_def check_mark_def cross_mark_def)

lemma renderTable_explicit:
  "renderTable rows =
     ''| Check | Result | Notes |'' @ [CHR 0x0A] @ ''|---|---|---|''
       @ (if rows = [] then [CHR 0x0A]
          else concat (map (\<lambda>r. [CHR 0x0A] @ ''| '' @ name r @ '' | ''
                 @ (if pass r then [CHR 0xE2, CHR 0x9C, CHR 0x85] @ '' Present''
                    else [CHR 0xE2, CHR 0x9D, CHR 0x8C] @ '' Missing'')
                 @ '' | '' @ rnotes r @ '' |'') rows))"
  unfolding renderTable_def Let_def join_rows
  by (simp add: render_row_eq)

lemma renderComment_explicit:
  "renderComment rows =
     (if list_all pass rows
      then [CHR 0xE2, CHR 0x9C, CHR 0x85] @ '' **Compliance PASSED** ''
             @ [CHR 0xE2, CHR 0x80, CHR 0x94] @ '' All required files are present.''
      else [CHR 0xE2, CHR 0x9D, CHR 0x8C] @ '' **Compliance FAILED** ''
             @ [CHR 0xE2, CHR 0x80, CHR 0x94] @ '' Missing: ''
             @ hd (map name (filter (\<lambda>r. \<not> pass r) rows))
             @ concat (map (\<lambda>n. '', '' @ n) (tl (map name (filter (\<lambda>r. \<not> pass r) rows)))))
     @ [CHR 0x0A, CHR 0x0A] @ renderTable rows"
proof (cases "list_all pass rows")
  case True
  then show ?thesis
    by (simp add: renderComment_def Let_def no_missing_iff [simplified] passed_header_def
        check_mark_def em_dash_def newline_def filter_empty_conv list_all_iff)
next
  case False
  then have "filter (\<lambda>r. \<not> pass r) rows \<noteq> []"
    by (simp add: filter_empty_conv list_all_iff)
  then obtain m ms where ms: "map name (filter (\<lambda>r. \<not> pass r) rows) = m # ms"
    by (cases "filter (\<lambda>r. \<not> pass r) rows") auto
  have "renderComment rows = failed_header @ join '', '' (m # ms) @ newline @ newline
      @ renderTable rows"
    using ms by (simp add: renderComment_def Let_def)
  moreover have "((@) '', '') = (\<lambda>y. CHR '','' # CHR '' '' # y)"
    by (rule ext) simp
  ultimately show ?thesis
    using False ms
    by (simp add: join_Cons_concat failed_header_def cross_mark_def em_dash_def newline_def)
qed

text \<open>
  C7: the comment is a header, an empty line and the table. When every row passes, the
  header is the PASSED line and no row is listed as failing; otherwise it is the FAILED
  line, ending in "Missing: " and the names of exactly the failing rows, in order,
  separated by a comma and a space, so the name of every failing row occurs in the
  comment. The table is the line "| Check | Result | Notes |", the line "|---|---|---|"
  and one line per row, in the order of the rows, with the name, the Present or Missing
  mark and the notes.
\<close>

theorem comment_rendering:
  "renderComment rows =
     (if list_all pass rows
      then [CHR 0xE2, CHR 0x9C, CHR 0x85] @ '' **Compliance PASSED** ''
             @ [CHR 0xE2, CHR 0x80, CHR 0x94] @ '' All required files are present.''
      else [CHR 0xE2, CHR 0x9D, CHR 0x8C] @ '' **Compliance FAILED** ''
             @ [CHR 0xE2, CHR 0x80, CHR 0x94] @ '' Missing: ''
             @ hd (map name (filter (\<lambda>r. \<not> pass r) rows))
             @ concat (map (\<lambda>n. '', '' @ n) (tl (map name (filter (\<lambda>r. \<not> pass r) rows)))))
     @ [CHR 0x0A, CHR 0x0A]
     @ ''| Check | Result | Notes |'' @ [CHR 0x0A] @ ''|---|---|---|''
     @ (if rows = [] then [CHR 0x0A]
        else concat (map (\<lambda>r. [CHR 0x0A] @ ''| '' @ name r @ '' | ''
                 @ (if pass r then [CHR 0xE2, CHR 0x9C, CHR 0x85] @ '' Present''
                    else [CHR 0xE2, CHR 0x9D, CHR 0x8C] @ '' Missing'')
                 @ '' | '' @ rnotes r @ '' |'') rows))
   \<and> (list_all pass rows \<longrightarrow> filter (\<lambda>r. \<not> pass r) rows = [])
   \<and> (\<forall>r\<in>set rows. \<not> pass r \<longrightarrow>
        name r \<in> set (map name (filter (\<lambda>r. \<not> pass r) rows))
        \<and> sublist (name r) (renderComment rows))
   \<and> (\<forall>r\<in>set rows. sublist (''| '' @ name r @ '' | ''
                 @ (if pass r then [CHR 0xE2, CHR 0x9C, CHR 0x85] @ '' Present''
                    else [CHR 0xE2, CHR 0x9D, CHR 0x8C] @ '' Missing'')
                 @ '' | '' @ rnotes r @ '' |'') (renderComment rows))"
proof -
  let ?missing = "map name (filter (\<lambda>r. \<not> pass r) rows)"
  have shape: "renderComment rows =
     (if list_all pass rows
      then [CHR 0xE2, CHR 0x9C, CHR 0x85] @ '' **Compliance PASSED** ''
             @ [CHR 0xE2, CHR 0x80, CHR 0x94] @ '' All required files are present.''
      else [CHR 0xE2, CHR 0x9D, CHR 0x8C] @ '' **Compliance FAILED** ''
             @ [CHR 0xE2, CHR 0x80, CHR 0x94] @ '' Missing: ''
             @ hd (map name (filter (\<lambda>r. \<not> pass r) rows))
             @ concat (map (\<lambda>n. '', '' @ n) (tl (map name (filter (\<lambda>r. \<not> pass r) rows)))))
     @ [CHR 0x0A, CHR 0x0A]
     @ ''| Check | Result | Notes |'' @ [CHR 0x0A] @ ''|---|---|---|''
     @ (if rows = [] then [CHR 0x0A]
        else concat (map (\<lambda>r. [CHR 0x0A] @ ''| '' @ name r @ '' | ''
                 @ (if pass r then [CHR 0xE2, CHR 0x9C, CHR 0x85] @ '' Present''
                    else [CHR 0xE2, CHR 0x9D, CHR 0x8C] @ '' Missing'')
                 @ '' | '' @ rnotes r @ '' |'') rows))"
    unfolding renderComment_explicit renderTable_explicit by simp
  have passed: "list_all pass rows \<longrightarrow> filter (\<lambda>r. \<not> pass r) rows = []"
    by (simp add: filter_empty_conv list_all_iff)
  have old: "renderComment rows =
     (if list_all pass rows then passed_header else failed_header @ join '', '' ?missing)
     @ newline @ newline @ table_head @ join newline (map render_row rows)"
    by (rule renderComment_eq)
  have names: "\<forall>r\<in>set rows. \<not> pass r \<longrightarrow>
        name r \<in> set (map name (filter (\<lambda>r. \<not> pass r) rows))
        \<and> sublist (name r) (renderComment rows)"
  proof (intro ballI impI)
    fix r
    assume r: "r \<in> set rows" and fails: "\<not> pass r"
    then have mem: "name r \<in> set ?missing" by simp
    then have "sublist (name r) (join '', '' ?missing)"
      by (rule join_sublist)
    then obtain ps ss where dec: "join '', '' ?missing = ps @ name r @ ss"
      unfolding sublist_def by blast
    from r fails have "\<not> list_all pass rows"
      by (auto simp: list_all_iff)
    then have "renderComment rows =
        (failed_header @ ps) @ name r
          @ (ss @ newline @ newline @ table_head @ join newline (map render_row rows))"
      by (simp add: old dec)
    then have "sublist (name r) (renderComment rows)"
      unfolding sublist_def by blast
    with mem show "name r \<in> set ?missing \<and> sublist (name r) (renderComment rows)"
      by simp
  qed
  have table: "\<forall>r\<in>set rows. sublist (''| '' @ name r @ '' | ''
                 @ (if pass r then [CHR 0xE2, CHR 0x9C, CHR 0x85] @ '' Present''
                    else [CHR 0xE2, CHR 0x9D, CHR 0x8C] @ '' Missing'')
                 @ '' | '' @ rnotes r @ '' |'') (renderComment rows)"
  proof
    fix r
    assume "r \<in> set rows"
    then have "render_row r \<in> set (map render_row rows)" by simp
    then have "sublist (render_row r) (join newline (map render_row rows))"
      by (rule join_sublist)
    then obtain ps ss where "join newline (map render_row rows) = ps @ render_row r @ ss"
      unfolding sublist_def by blast
    then have "renderComment rows =
        ((if list_all pass rows then passed_header else failed_header @ join '', '' ?missing)
           @ newline @ newline @ table_head @ ps) @ render_row r @ ss"
      by (simp add: old)
    then have "sublist (render_row r) (renderComment rows)"
      unfolding sublist_def by blast
    then show "sublist (''| '' @ name r @ '' | ''
                 @ (if pass r then [CHR 0xE2, CHR 0x9C, CHR 0x85] @ '' Present''
                    else [CHR 0xE2, CHR 0x9D, CHR 0x8C] @ '' Missing'')
                 @ '' | '' @ rnotes r @ '' |'') (renderComment rows)"
      unfolding render_row_eq .
  qed
  show ?thesis
    by (rule conjI [OF shape conjI [OF passed conjI [OF names table]]])
qed

theorem comment_rendering_witness:
  "renderComment [\<lparr>name = ''README.md'', pass = True, rnotes = ''Checked at repo root''\<rparr>,
                    \<lparr>name = ''CONTRIBUTING.md'', pass = False, rnotes = ''Checked at repo root''\<rparr>] =
       [CHR 0xE2, CHR 0x9D, CHR 0x8C] @ '' **Compliance FAILED** ''
         @ [CHR 0xE2, CHR 0x80, CHR 0x94] @ '' Missing: CONTRIBUTING.md''
         @ [CHR 0x0A, CHR 0x0A] @ ''| Check | Result | Notes |'' @ [CHR 0x0A] @ ''|---|---|---|'' @ [CHR 0x0A]
         @ ''| README.md | '' @ [CHR 0xE2, CHR 0x9C, CHR 0x85] @ '' Present | Checked at repo root |'' @ [CHR 0x0A]
         @ ''| CONTRIBUTING.md | '' @ [CHR 0xE2, CHR 0x9D, CHR 0x8C] @ '' Missing | Checked at repo root |''
   \<and> renderComment [\<lparr>name = ''README.md'', pass = False, rnotes = ''Checked at repo root''\<rparr>,
                    \<lparr>name = ''CONTRIBUTING.md'', pass = False, rnotes = ''Checked at repo root''\<rparr>] =
       [CHR 0xE2, CHR 0x9D, CHR 0x8C] @ '' **Compliance FAILED** ''
         @ [CHR 0xE2, CHR 0x80, CHR 0x94] @ '' Missing: README.md, CONTRIBUTING.md''
         @ [CHR 0x0A, CHR 0x0A] @ ''| Check | Result | Notes |'' @ [CHR 0x0A] @ ''|---|---|---|'' @ [CHR 0x0A]
         @ ''| README.md | '' @ [CHR 0xE2, CHR 0x9D, CHR 0x8C] @ '' Missing | Checked at repo root |'' @ [CHR 0x0A]
         @ ''| CONTRIBUTING.md | '' @ [CHR 0xE2, CHR 0x9D, CHR 0x8C] @ '' Missing | Checked at repo root |''
   \<and> renderComment [\<lparr>name = ''README.md'', pass = True, rnotes = ''Checked at repo root''\<rparr>,
                    \<lparr>name = ''CONTRIBUTING.md'', pass = True, rnotes = ''Checked at repo root''\<rparr>] =
       [CHR 0xE2, CHR 0x9C, CHR 0x85] @ '' **Compliance PASSED** ''
         @ [CHR 0xE2, CHR 0x80, CHR 0x94] @ '' All required files are present.''
         @ [CHR 0x0A, CHR 0x0A] @ ''| Check | Result | Notes |'' @ [CHR 0x0A] @ ''|---|---|---|'' @ [CHR 0x0A]
         @ ''| README.md | '' @ [CHR 0xE2, CHR 0x9C, CHR 0x85] @ '' Present | Checked at repo root |'' @ [CHR 0x0A]
         @ ''| CONTRIBUTING.md | '' @ [CHR 0xE2, CHR 0x9C, CHR 0x85] @ '' Present | Checked at repo root |''
   \<and> sublist ''CONTRIBUTING.md''
       (renderComment [\<lparr>name = ''README.md'', pass = True, rnotes = ''Checked at repo root''\<rparr>,
                       \<lparr>name = ''CONTRIBUTING.md'', pass = False, rnotes = ''Checked at repo root''\<rparr>])"
proof -
  let ?one = "[\<lparr>name = ''README.md'', pass = True, rnotes = ''Checked at repo root''\<rparr>, \<lparr>name = ''CONTRIBUTING.md'', pass = False, rnotes = ''Checked at repo root''\<rparr>]"
  let ?both = "[\<lparr>name = ''README.md'', pass = False, rnotes = ''Checked at repo root''\<rparr>, \<lparr>name = ''CONTRIBUTING.md'', pass = False, rnotes = ''Checked at repo root''\<rparr>]"
  let ?none = "[\<lparr>name = ''README.md'', pass = True, rnotes = ''Checked at repo root''\<rparr>, \<lparr>name = ''CONTRIBUTING.md'', pass = True, rnotes = ''Checked at repo root''\<rparr>]"
  have one: "renderComment [\<lparr>name = ''README.md'', pass = True, rnotes = ''Checked at repo root''\<rparr>,
                    \<lparr>name = ''CONTRIBUTING.md'', pass = False, rnotes = ''Checked at repo root''\<rparr>] =
       [CHR 0xE2, CHR 0x9D, CHR 0x8C] @ '' **Compliance FAILED** ''
         @ [CHR 0xE2, CHR 0x80, CHR 0x94] @ '' Missing: CONTRIBUTING.md''
         @ [CHR 0x0A, CHR 0x0A] @ ''| Check | Result | Notes |'' @ [CHR 0x0A] @ ''|---|---|---|'' @ [CHR 0x0A]
         @ ''| README.md | '' @ [CHR 0xE2, CHR 0x9C, CHR 0x85] @ '' Present | Checked at repo root |'' @ [CHR 0x0A]
         @ ''| CONTRIBUTING.md | '' @ [CHR 0xE2, CHR 0x9D, CHR 0x8C] @ '' Missing | Checked at repo root |''"
    using comment_rendering [where rows = ?one, THEN conjunct1] by simp
  have both: "renderComment [\<lparr>name = ''README.md'', pass = False, rnotes = ''Checked at repo root''\<rparr>,
                    \<lparr>name = ''CONTRIBUTING.md'', pass = False, rnotes = ''Checked at repo root''\<rparr>] =
       [CHR 0xE2, CHR 0x9D, CHR 0x8C] @ '' **Compliance FAILED** ''
         @ [CHR 0xE2, CHR 0x80, CHR 0x94] @ '' Missing: README.md, CONTRIBUTING.md''
         @ [CHR 0x0A, CHR 0x0A] @ ''| Check | Result | Notes |'' @ [CHR 0x0A] @ ''|---|---|---|'' @ [CHR 0x0A]
         @ ''| README.md | '' @ [CHR 0xE2, CHR 0x9D, CHR 0x8C] @ '' Missing | Checked at repo root |'' @ [CHR 0x0A]
         @ ''| CONTRIBUTING.md | '' @ [CHR 0xE2, CHR 0x9D, CHR 0x8C] @ '' Missing | Checked at repo root |''"
    using comment_rendering [where rows = ?both, THEN conjunct1] by simp
  have none: "renderComment [\<lparr>name = ''README.md'', pass = True, rnotes = ''Checked at repo root''\<rparr>,
                    \<lparr>name = ''CONTRIBUTING.md'', pass = True, rnotes = ''Checked at repo root''\<rparr>] =
       [CHR 0xE2, CHR 0x9C, CHR 0x85] @ '' **Compliance PASSED** ''
         @ [CHR 0xE2, CHR 0x80, CHR 0x94] @ '' All required files are present.''
         @ [CHR 0x0A, CHR 0x0A] @ ''| Check | Result | Notes |'' @ [CHR 0x0A] @ ''|---|---|---|'' @ [CHR 0x0A]
         @ ''| README.md | '' @ [CHR 0xE2, CHR 0x9C, CHR 0x85] @ '' Present | Checked at repo root |'' @ [CHR 0x0A]
         @ ''| CONTRIBUTING.md | '' @ [CHR 0xE2, CHR 0x9C, CHR 0x85] @ '' Present | Checked at repo root |''"
    using comment_rendering [where rows = ?none, THEN conjunct1] by simp
  have "\<lparr>name = ''CONTRIBUTING.md'', pass = False, rnotes = ''Checked at repo root''\<rparr> \<in> set ?one"
    by simp
  with comment_rendering [where rows = ?one, THEN conjunct2, THEN conjunct2, THEN conjunct1]
  have "\<not> pass (\<lparr>name = ''CONTRIBUTING.md'', pass = False, rnotes = ''Checked at repo root''\<rparr>) \<longrightarrow>
      name (\<lparr>name = ''CONTRIBUTING.md'', pass = False, rnotes = ''Checked at repo root''\<rparr>) \<in> set (map name (filter (\<lambda>r. \<not> pass r) ?one))
      \<and> sublist (name (\<lparr>name = ''CONTRIBUTING.md'', pass = False, rnotes = ''Checked at repo root''\<rparr>)) (renderComment ?one)"
    by (rule bspec)
  then have named: "sublist ''CONTRIBUTING.md''
       (renderComment [\<lparr>name = ''README.md'', pass = True, rnotes = ''Checked at repo root''\<rparr>,
                       \<lparr>name = ''CONTRIBUTING.md'', pass = False, rnotes = ''Checked at repo root''\<rparr>])"
    by simp
  show ?thesis
    by (rule conjI [OF one conjI [OF both conjI [OF none named]]])
qed

text \<open>
  C10: with no rule results, verification of no target returns the empty list, every row
  passes, the request completing the check run carries the conclusion success, the title
  PASSED and the summary 0 / 0, and the comment is the PASSED line, an empty line and the
  two heading lines of the table alone.
\<close>

theorem no_rules_pass:
  "list_all pass []
   \<and> check_files remote ow rp sha [] = Inr []
   \<and> completed_request ow rp cid [] =
       PatchCheckRun ow rp cid ''completed'' ''success''
         (Output ''Compliance (files): PASSED'' ''0 / 0 required files present''
            (''### Required files'' @ [CHR 0x0A]
               @ ''| Check | Result | Notes |'' @ [CHR 0x0A] @ ''|---|---|---|'' @ [CHR 0x0A]))
   \<and> renderTable [] = ''| Check | Result | Notes |'' @ [CHR 0x0A] @ ''|---|---|---|'' @ [CHR 0x0A]
   \<and> renderComment [] =
       [CHR 0xE2, CHR 0x9C, CHR 0x85] @ '' **Compliance PASSED** ''
         @ [CHR 0xE2, CHR 0x80, CHR 0x94] @ '' All required files are present.''
         @ [CHR 0x0A, CHR 0x0A] @ ''| Check | Result | Notes |'' @ [CHR 0x0A] @ ''|---|---|---|'' @ [CHR 0x0A]"
  by (simp add: check_files_def completed_request_def renderTable_def renderComment_def
      string_of_nat.simps digit_char_def table_head_def newline_def passed_header_def
      check_mark_def em_dash_def)

section \<open>Finalization\<close>

lemma demo_handler_patch_accepted:
  assumes "actionable (action p)" and "\<not> demo_missing_fields p"
    and "remote (GetInstallationOctokit (installation_id p)) = Inr a"
    and "remote (create_request (owner_login p) (repository_name p) (head_sha p)) = Inr cid"
    and "remote (demo_completed_request (owner_login p) (repository_name p) cid rnd) = Inr d"
  shows "demo_handler remote rnd p =
           \<lparr>calls = [GetInstallationOctokit (installation_id p),
                     create_request (owner_login p) (repository_name p) (head_sha p),
                     demo_completed_request (owner_login p) (repository_name p) cid rnd],
            result = Returned\<rparr>"
  using demo_handler_created [OF assms(1-4)] assms(5)
  by (simp add: Let_def demo_try_block_eq)

lemma demo_handler_patch_fails:
  assumes "actionable (action p)" and "\<not> demo_missing_fields p"
    and "remote (GetInstallationOctokit (installation_id p)) = Inr a"
    and "remote (create_request (owner_login p) (repository_name p) (head_sha p)) = Inr cid"
    and "remote (demo_completed_request (owner_login p) (repository_name p) cid rnd) = Inl err"
  shows "demo_handler remote rnd p =
           \<lparr>calls = [GetInstallationOctokit (installation_id p),
                     create_request (owner_login p) (repository_name p) (head_sha p),
                     demo_completed_request (owner_login p) (repository_name p) cid rnd,
                     demo_error_request (owner_login p) (repository_name p) cid],
            result = Returned\<rparr>"
  using demo_handler_created [OF assms(1-4)] assms(5)
  by (simp add: Let_def demo_try_block_eq)

lemma finalizes_run:
  "finalizes \<lparr>calls = GetInstallationOctokit i # create_request ow rp sha # cs, result = res\<rparr>
     = filter is_finalize cs"
  by (simp add: finalizes_def finalize_simps)

lemma handler_comment_fails_finalizes:
  assumes "actionable (action p)" and "\<not> missing_fields p"
    and "remote (GetInstallationOctokit (installation_id p)) = Inr a"
    and "remote (create_request (owner_login p) (repository_name p) (head_sha p)) = Inr cid"
    and "check_files remote (owner_login p) (repository_name p) (head_sha p) targets = Inr ex"
    and "remote (completed_request (owner_login p) (repository_name p) cid ex) = Inr d"
    and "remote (PostComment (owner_login p) (repository_name p) (number p) (renderComment ex))
           = Inl err"
  shows "finalizes (handler remote p) =
           [completed_request (owner_login p) (repository_name p) cid ex,
            error_request (owner_login p) (repository_name p) cid]"
  by (simp add: handler_comment_fails [OF assms] finalizes_run finalize_simps)

text \<open>
  C1, as amended: for every event on which the creation of the check run succeeds, the
  handler returns normally and sends the request completing the check run at least once.
  It sends it exactly once, with the error report, when verification fails, and exactly
  once, with the computed report, when verification, that request and (in the file-check
  handler) the comment succeed. When the request carrying the computed report itself
  fails, the error report is sent as a second request. (The file-check handler's run
  whose comment fails is covered by the lower bound only.)
\<close>

theorem finalize_invocations:
  "(\<forall>a cid.
      actionable (action p) \<and> \<not> missing_fields p
      \<and> remote (GetInstallationOctokit (installation_id p)) = Inr a
      \<and> remote (create_request (owner_login p) (repository_name p) (head_sha p)) = Inr cid \<longrightarrow>
      result (handler remote p) = Returned
      \<and> 1 \<le> length (finalizes (handler remote p))
      \<and> (\<forall>err. check_files remote (owner_login p) (repository_name p) (head_sha p) targets
                  = Inl err \<longrightarrow>
            finalizes (handler remote p) = [error_request (owner_login p) (repository_name p) cid])
      \<and> (\<forall>ex d d'.
            check_files remote (owner_login p) (repository_name p) (head_sha p) targets = Inr ex
            \<and> remote (completed_request (owner_login p) (repository_name p) cid ex) = Inr d
            \<and> remote (PostComment (owner_login p) (repository_name p) (number p)
                 (renderComment ex)) = Inr d' \<longrightarrow>
            finalizes (handler remote p) =
              [completed_request (owner_login p) (repository_name p) cid ex])
      \<and> (\<forall>ex err.
            check_files remote (owner_login p) (repository_name p) (head_sha p) targets = Inr ex
            \<and> remote (completed_request (owner_login p) (repository_name p) cid ex) = Inl err \<longrightarrow>
            finalizes (handler remote p) =
              [completed_request (owner_login p) (repository_name p) cid ex,
               error_request (owner_login p) (repository_name p) cid]))
   \<and> (\<forall>a cid.
      actionable (action p) \<and> \<not> demo_missing_fields p
      \<and> remote (GetInstallationOctokit (installation_id p)) = Inr a
      \<and> remote (create_request (owner_login p) (repository_name p) (head_sha p)) = Inr cid \<longrightarrow>
      result (demo_handler remote rnd p) = Returned
      \<and> (\<forall>d. remote (demo_completed_request (owner_login p) (repository_name p) cid rnd)
                = Inr d \<longrightarrow>
            finalizes (demo_handler remote rnd p) =
              [demo_completed_request (owner_login p) (repository_name p) cid rnd])
      \<and> (\<forall>err. remote (demo_completed_request (owner_login p) (repository_name p) cid rnd)
                = Inl err \<longrightarrow>
            finalizes (demo_handler remote rnd p) =
              [demo_completed_request (owner_login p) (repository_name p) cid rnd,
               demo_error_request (owner_login p) (repository_name p) cid]))"
proof (rule conjI)
  let ?ow = "owner_login p" and ?rp = "repository_name p" and ?sha = "head_sha p"
  show "\<forall>a cid.
      actionable (action p) \<and> \<not> missing_fields p
      \<and> remote (GetInstallationOctokit (installation_id p)) = Inr a
      \<and> remote (create_request ?ow ?rp ?sha) = Inr cid \<longrightarrow>
      result (handler remote p) = Returned
      \<and> 1 \<le> length (finalizes (handler remote p))
      \<and> (\<forall>err. check_files remote ?ow ?rp ?sha targets = Inl err \<longrightarrow>
            finalizes (handler remote p) = [error_request ?ow ?rp cid])
      \<and> (\<forall>ex d d'.
            check_files remote ?ow ?rp ?sha targets = Inr ex
            \<and> remote (completed_request ?ow ?rp cid ex) = Inr d
            \<and> remote (PostComment ?ow ?rp (number p) (renderComment ex)) = Inr d' \<longrightarrow>
            finalizes (handler remote p) = [completed_request ?ow ?rp cid ex])
      \<and> (\<forall>ex err.
            check_files remote ?ow ?rp ?sha targets = Inr ex
            \<and> remote (completed_request ?ow ?rp cid ex) = Inl err \<longrightarrow>
            finalizes (handler remote p) =
              [completed_request ?ow ?rp cid ex, error_request ?ow ?rp cid])"
  proof (intro allI impI, elim conjE)
    fix a cid
    assume act: "actionable (action p)" and fields: "\<not> missing_fields p"
      and auth: "remote (GetInstallationOctokit (installation_id p)) = Inr a"
      and create: "remote (create_request ?ow ?rp ?sha) = Inr cid"
    note created = act fields auth create
    have returned: "result (handler remote p) = Returned"
      by (simp add: handler_created [OF created] Let_def)
    have fallback: "\<forall>err. check_files remote ?ow ?rp ?sha targets = Inl err \<longrightarrow>
            finalizes (handler remote p) = [error_request ?ow ?rp cid]"
      by (simp add: handler_verification_fails [OF created] finalizes_run finalize_simps)
    have computed: "\<forall>ex d d'.
            check_files remote ?ow ?rp ?sha targets = Inr ex
            \<and> remote (completed_request ?ow ?rp cid ex) = Inr d
            \<and> remote (PostComment ?ow ?rp (number p) (renderComment ex)) = Inr d' \<longrightarrow>
            finalizes (handler remote p) = [completed_request ?ow ?rp cid ex]"
      by (simp add: handler_succeeds [OF created] finalizes_run finalize_simps)
    have both: "\<forall>ex err.
            check_files remote ?ow ?rp ?sha targets = Inr ex
            \<and> remote (completed_request ?ow ?rp cid ex) = Inl err \<longrightarrow>
            finalizes (handler remote p) =
              [completed_request ?ow ?rp cid ex, error_request ?ow ?rp cid]"
      by (simp add: handler_patch_fails [OF created] finalizes_run finalize_simps)
    have at_least_once: "1 \<le> length (finalizes (handler remote p))"
    proof (cases "check_files remote ?ow ?rp ?sha targets")
      case (Inl err)
      with fallback show ?thesis by simp
    next
      case (Inr ex)
      show ?thesis
      proof (cases "remote (completed_request ?ow ?rp cid ex)")
        case (Inl err)
        with Inr both show ?thesis by simp
      next
        case patched: (Inr d)
        show ?thesis
        proof (cases "remote (PostComment ?ow ?rp (number p) (renderComment ex))")
          case (Inl err)
          with handler_comment_fails_finalizes [OF created Inr patched] show ?thesis
            by simp
        next
          case (Inr d')
          with \<open>check_files remote ?ow ?rp ?sha targets = Inr ex\<close> patched computed
          show ?thesis by simp
        qed
      qed
    qed
    show "result (handler remote p) = Returned
      \<and> 1 \<le> length (finalizes (handler remote p))
      \<and> (\<forall>err. check_files remote ?ow ?rp ?sha targets = Inl err \<longrightarrow>
            finalizes (handler remote p) = [error_request ?ow ?rp cid])
      \<and> (\<forall>ex d d'.
            check_files remote ?ow ?rp ?sha targets = Inr ex
            \<and> remote (completed_request ?ow ?rp cid ex) = Inr d
            \<and> remote (PostComment ?ow ?rp (number p) (renderComment ex)) = Inr d' \<longrightarrow>
            finalizes (handler remote p) = [completed_request ?ow ?rp cid ex])
      \<and> (\<forall>ex err.
            check_files remote ?ow ?rp ?sha targets = Inr ex
            \<and> remote (completed_request ?ow ?rp cid ex) = Inl err \<longrightarrow>
            finalizes (handler remote p) =
              [completed_request ?ow ?rp cid ex, error_request ?ow ?rp cid])"
      by (rule conjI [OF returned conjI [OF at_least_once conjI [OF fallback
          conjI [OF computed both]]]])
  qed
next
  let ?ow = "owner_login p" and ?rp = "repository_name p" and ?sha = "head_sha p"
  show "\<forall>a cid.
      actionable (action p) \<and> \<not> demo_missing_fields p
      \<and> remote (GetInstallationOctokit (installation_id p)) = Inr a
      \<and> remote (create_request ?ow ?rp ?sha) = Inr cid \<longrightarrow>
      result (demo_handler remote rnd p) = Returned
      \<and> (\<forall>d. remote (demo_completed_request ?ow ?rp cid rnd) = Inr d \<longrightarrow>
            finalizes (demo_handler remote rnd p) = [demo_completed_request ?ow ?rp cid rnd])
      \<and> (\<forall>err. remote (demo_completed_request ?ow ?rp cid rnd) = Inl err \<longrightarrow>
            finalizes (demo_handler remote rnd p) =
              [demo_completed_request ?ow ?rp cid rnd, demo_error_request ?ow ?rp cid])"
  proof (intro allI impI, elim conjE)
    fix a cid
    assume act: "actionable (action p)" and fields: "\<not> demo_missing_fields p"
      and auth: "remote (GetInstallationOctokit (installation_id p)) = Inr a"
      and create: "remote (create_request ?ow ?rp ?sha) = Inr cid"
    note created = act fields auth create
    have returned: "result (demo_handler remote rnd p) = Returned"
      by (simp add: demo_handler_created [OF created] Let_def)
    have once: "\<forall>d. remote (demo_completed_request ?ow ?rp cid rnd) = Inr d \<longrightarrow>
            finalizes (demo_handler remote rnd p) = [demo_completed_request ?ow ?rp cid rnd]"
      by (simp add: demo_handler_patch_accepted [OF created] finalizes_run finalize_simps)
    have twice: "\<forall>err. remote (demo_completed_request ?ow ?rp cid rnd) = Inl err \<longrightarrow>
            finalizes (demo_handler remote rnd p) =
              [demo_completed_request ?ow ?rp cid rnd, demo_error_request ?ow ?rp cid]"
      by (simp add: demo_handler_patch_fails [OF created] finalizes_run finalize_simps)
    show "result (demo_handler remote rnd p) = Returned
      \<and> (\<forall>d. remote (demo_completed_request ?ow ?rp cid rnd) = Inr d \<longrightarrow>
            finalizes (demo_handler remote rnd p) = [demo_completed_request ?ow ?rp cid rnd])
      \<and> (\<forall>err. remote (demo_completed_request ?ow ?rp cid rnd) = Inl err \<longrightarrow>
            finalizes (demo_handler remote rnd p) =
              [demo_completed_request ?ow ?rp cid rnd, demo_error_request ?ow ?rp cid])"
      by (rule conjI [OF returned conjI [OF once twice]])
  qed
qed

lemmas handler_defs =
  handler_def actionable_def missing_fields_def create_request_def try_block_def
  catch_block_def check_files_def check_target_def fileExists_def targets_def
  contents_requests_def completed_request_def error_request_def Let_def

lemmas demo_handler_defs =
  demo_handler_def actionable_def demo_missing_fields_def create_request_def
  demo_try_block_def demo_catch_block_def demo_completed_request_def demo_error_request_def
  Let_def

theorem finalize_invocations_counterexample:
  "rejects_computed_report (GetInstallationOctokit (installation_id example_event))
     = Inr (JNum 42)
   \<and> rejects_computed_report (create_request (owner_login example_event)
         (repository_name example_event) (head_sha example_event)) = Inr (JNum 42)
   \<and> map conclusion_of (finalizes (handler rejects_computed_report example_event))
       = [''success'', ''failure'']
   \<and> map conclusion_of (finalizes (demo_handler rejects_computed_report (7/10) example_event))
       = [''success'', ''failure'']"
  by (simp add: handler_defs demo_handler_defs example_event_def rejects_computed_report_def
      finalizes_def)

theorem finalize_invocations_witness:
  "actionable (action example_event) \<and> \<not> missing_fields example_event
   \<and> \<not> demo_missing_fields example_event
   \<and> all_ok (GetInstallationOctokit (installation_id example_event)) = Inr (JNum 42)
   \<and> all_ok (create_request (owner_login example_event) (repository_name example_event)
         (head_sha example_event)) = Inr (JNum 42)
   \<and> map conclusion_of (finalizes (handler all_ok example_event)) = [''success'']
   \<and> finalizes (handler contents_unavailable example_event)
       = [error_request (JStr ''octo'') (JStr ''demo'') (JNum 42)]
   \<and> length (finalizes (handler rejects_computed_report example_event)) = 2
   \<and> map conclusion_of (finalizes (demo_handler all_ok (3/10) example_event)) = [''failure'']"
proof -
  have accepted: "actionable (action example_event) \<and> \<not> missing_fields example_event
      \<and> \<not> demo_missing_fields example_event"
    by (simp add: example_event_accepted)
  have created: "all_ok (GetInstallationOctokit (installation_id example_event)) = Inr (JNum 42)
      \<and> all_ok (create_request (owner_login example_event) (repository_name example_event)
            (head_sha example_event)) = Inr (JNum 42)"
    by (simp add: all_ok_def)
  have one: "map conclusion_of (finalizes (handler all_ok example_event)) = [''success'']"
    using finalize_invocations [where p = example_event and remote = all_ok] accepted
    by (simp add: all_ok_def example_event_def check_files_def check_target_def fileExists_def
        targets_def completed_request_def Let_def)
  have fallback: "finalizes (handler contents_unavailable example_event)
       = [error_request (JStr ''octo'') (JStr ''demo'') (JNum 42)]"
    using finalize_invocations [where p = example_event and remote = contents_unavailable] accepted
    by (simp add: contents_unavailable_def example_event_def check_files_def check_target_def
        fileExists_def targets_def create_request_def Let_def)
  have two: "length (finalizes (handler rejects_computed_report example_event)) = 2"
    using finalize_invocations [where p = example_event and remote = rejects_computed_report]
      accepted
    by (simp add: rejects_computed_report_def example_event_def check_files_def check_target_def
        fileExists_def targets_def create_request_def completed_request_def Let_def)
  have demo: "map conclusion_of (finalizes (demo_handler all_ok (3/10) example_event))
       = [''failure'']"
    using finalize_invocations [where p = example_event and remote = all_ok and rnd = "3/10"]
      accepted
    by (simp add: all_ok_def example_event_def demo_completed_request_def Let_def)
  from accepted created one fallback two demo show ?thesis
    by simp
qed

section \<open>The conclusion\<close>

lemma conclusion_simps:
  "conclusion_of (completed_request ow rp cid ex) =
     (if list_all pass ex then ''success'' else ''failure'')"
  "conclusion_of (error_request ow rp cid) = ''failure''"
  "conclusion_of (demo_completed_request ow rp cid rnd) =
     (if rnd > 0.5 then ''success'' else ''failure'')"
  "conclusion_of (demo_error_request ow rp cid) = ''failure''"
  by (simp_all add: completed_request_def error_request_def demo_completed_request_def
      demo_error_request_def Let_def)

lemma demo_checks_pass: "list_all c_pass (demo_checks compliant) = compliant"
  by (simp add: demo_checks_def)

lemma try_block_finalizes:
  "filter is_finalize (fst (try_block remote ow rp sha n cid)) =
     (case check_files remote ow rp sha targets of
        Inl err \<Rightarrow> []
      | Inr ex \<Rightarrow> [completed_request ow rp cid ex])"
  by (simp add: try_block_def Let_def finalize_simps split: sum.split)

lemma try_block_throws_without_verdict:
  "check_files remote ow rp sha targets = Inl err \<Longrightarrow>
     isl (snd (try_block remote ow rp sha n cid))"
  by (simp add: try_block_def)

lemma finalizes_created:
  assumes "actionable (action p)" and "\<not> missing_fields p"
    and "remote (GetInstallationOctokit (installation_id p)) = Inr a"
    and "remote (create_request (owner_login p) (repository_name p) (head_sha p)) = Inr cid"
  shows "finalizes (handler remote p) =
           (case check_files remote (owner_login p) (repository_name p) (head_sha p) targets of
              Inl err \<Rightarrow> []
            | Inr ex \<Rightarrow> [completed_request (owner_login p) (repository_name p) cid ex])
           @ (if isl (snd (try_block remote (owner_login p) (repository_name p) (head_sha p)
                             (number p) cid))
              then [error_request (owner_login p) (repository_name p) cid] else [])"
  by (simp add: handler_created [OF assms] Let_def finalizes_run try_block_finalizes
      finalize_simps)

lemma finalizes_not_created:
  assumes "\<not> (actionable (action p) \<and> \<not> missing_fields p
              \<and> (\<exists>a. remote (GetInstallationOctokit (installation_id p)) = Inr a)
              \<and> (\<exists>cid. remote (create_request (owner_login p) (repository_name p)
                                  (head_sha p)) = Inr cid))"
  shows "finalizes (handler remote p) = []"
proof (cases "actionable (action p) \<and> \<not> missing_fields p")
  case False
  then show ?thesis
    by (auto simp: handler_dropped finalizes_def)
next
  case True
  show ?thesis
  proof (cases "remote (GetInstallationOctokit (installation_id p))")
    case (Inl e)
    with True show ?thesis
      by (simp add: handler_auth_fails finalizes_def)
  next
    case (Inr a)
    with True assms obtain e where
      "remote (create_request (owner_login p) (repository_name p) (head_sha p)) = Inl e"
      by (cases "remote (create_request (owner_login p) (repository_name p) (head_sha p))") auto
    with True Inr show ?thesis
      by (simp add: handler_create_fails finalizes_def finalize_simps)
  qed
qed

lemma success_only_with_verdict:
  assumes "c \<in> set (finalizes (handler remote p))" and "conclusion_of c = ''success''"
  shows "\<exists>ex. check_files remote (owner_login p) (repository_name p) (head_sha p) targets = Inr ex
              \<and> list_all pass ex"
proof (cases "actionable (action p) \<and> \<not> missing_fields p
              \<and> (\<exists>a. remote (GetInstallationOctokit (installation_id p)) = Inr a)
              \<and> (\<exists>cid. remote (create_request (owner_login p) (repository_name p)
                                  (head_sha p)) = Inr cid)")
  case False
  then have "finalizes (handler remote p) = []"
    by (rule finalizes_not_created)
  with assms(1) show ?thesis by simp
next
  case True
  then obtain a cid where created:
    "actionable (action p)" "\<not> missing_fields p"
    "remote (GetInstallationOctokit (installation_id p)) = Inr a"
    "remote (create_request (owner_login p) (repository_name p) (head_sha p)) = Inr cid"
    by blast
  note fin = finalizes_created [OF created]
  show ?thesis
  proof (cases "check_files remote (owner_login p) (repository_name p) (head_sha p) targets")
    case (Inl err)
    with fin assms(1) have "c = error_request (owner_login p) (repository_name p) cid"
      by (simp split: if_splits)
    with assms(2) show ?thesis
      by (simp add: conclusion_simps)
  next
    case (Inr ex)
    with fin assms(1) have
      "c = completed_request (owner_login p) (repository_name p) cid ex
       \<or> c = error_request (owner_login p) (repository_name p) cid"
      by (auto split: if_splits)
    with assms(2) have "list_all pass ex"
      by (auto simp: conclusion_simps split: if_splits)
    with Inr show ?thesis by simp
  qed
qed

text \<open>
  C3, as amended: the request that completes the check run from a verdict carries the
  conclusion success exactly when every rule result passes, and failure otherwise. When
  that request and the comment are accepted it is the only completing request of the
  run, so the check run ends with success exactly when every rule passes. When that
  request itself is refused, the request of the catch block follows, with the conclusion
  failure, whatever the verdict. When verification throws before a verdict exists, the
  only completing request is the one of the catch block, with the conclusion failure. No
  completing request of any run carries success unless verification returned a verdict
  whose results all pass. The demonstration handler behaves alike, its conclusion being
  success exactly when all three checks pass.
\<close>

theorem conclusion_fails_closed:
  "((conclusion_of (completed_request ow rp cid ex) = ''success'') = list_all pass ex)
   \<and> ((conclusion_of (completed_request ow rp cid ex) = ''failure'') = (\<not> list_all pass ex))
   \<and> (error_request ow rp cid =
        PatchCheckRun ow rp cid ''completed'' ''failure''
          (Output ''Compliance (files): ERROR'' ''Error while performing required-file checks''
             ''See app logs for details.''))
   \<and> (\<forall>a cid'.
        action p \<in> {JStr ''opened'', JStr ''reopened'', JStr ''synchronize''}
        \<and> truthy (installation_id p) \<and> truthy (owner_login p)
        \<and> truthy (repository_name p) \<and> truthy (head_sha p) \<and> truthy (number p)
        \<and> remote (GetInstallationOctokit (installation_id p)) = Inr a
        \<and> remote (PostCheckRun (owner_login p) (repository_name p) ''Compliance'' (head_sha p)
              ''in_progress'') = Inr cid' \<longrightarrow>
        (\<forall>ex' d d'. check_files remote (owner_login p) (repository_name p) (head_sha p) targets = Inr ex'
             \<and> remote (completed_request (owner_login p) (repository_name p) cid' ex') = Inr d
             \<and> remote (PostComment (owner_login p) (repository_name p) (number p) (renderComment ex')) = Inr d' \<longrightarrow>
           finalizes (handler remote p) = [completed_request (owner_login p) (repository_name p) cid' ex']
           \<and> map conclusion_of (finalizes (handler remote p)) =
               [if list_all pass ex' then ''success'' else ''failure''])
        \<and> (\<forall>ex' err. check_files remote (owner_login p) (repository_name p) (head_sha p) targets = Inr ex'
             \<and> remote (completed_request (owner_login p) (repository_name p) cid' ex') = Inl err \<longrightarrow>
           map conclusion_of (finalizes (handler remote p)) =
             [if list_all pass ex' then ''success'' else ''failure'', ''failure''])
        \<and> (\<forall>ex'. check_files remote (owner_login p) (repository_name p) (head_sha p) targets = Inr ex' \<longrightarrow>
           take 1 (finalizes (handler remote p)) = [completed_request (owner_login p) (repository_name p) cid' ex'])
        \<and> (\<forall>err. check_files remote (owner_login p) (repository_name p) (head_sha p) targets = Inl err \<longrightarrow>
           finalizes (handler remote p) = [error_request (owner_login p) (repository_name p) cid']
           \<and> map conclusion_of (finalizes (handler remote p)) = [''failure'']))
   \<and> (\<forall>c\<in>set (finalizes (handler remote p)). conclusion_of c = ''success'' \<longrightarrow>
        (\<exists>ex'. check_files remote (owner_login p) (repository_name p) (head_sha p) targets = Inr ex' \<and> list_all pass ex'))
   \<and> ((conclusion_of (demo_completed_request ow rp cid rnd) = ''success'')
        = list_all c_pass (demo_checks (rnd > 0.5)))
   \<and> (conclusion_of (demo_error_request ow rp cid) = ''failure'')
   \<and> (\<forall>a cid'.
        action p \<in> {JStr ''opened'', JStr ''reopened'', JStr ''synchronize''}
        \<and> truthy (installation_id p) \<and> truthy (owner_login p)
        \<and> truthy (repository_name p) \<and> truthy (head_sha p) 
        \<and> remote (GetInstallationOctokit (installation_id p)) = Inr a
        \<and> remote (PostCheckRun (owner_login p) (repository_name p) ''Compliance'' (head_sha p)
              ''in_progress'') = Inr cid' \<longrightarrow>
        take 1 (finalizes (demo_handler remote rnd p)) = [demo_completed_request (owner_login p) (repository_name p) cid' rnd]
        \<and> (\<forall>d. remote (demo_completed_request (owner_login p) (repository_name p) cid' rnd) = Inr d \<longrightarrow>
           map conclusion_of (finalizes (demo_handler remote rnd p)) =
             [if list_all c_pass (demo_checks (rnd > 0.5)) then ''success'' else ''failure''])
        \<and> (\<forall>err. remote (demo_completed_request (owner_login p) (repository_name p) cid' rnd) = Inl err \<longrightarrow>
           map conclusion_of (finalizes (demo_handler remote rnd p)) =
             [if list_all c_pass (demo_checks (rnd > 0.5)) then ''success'' else ''failure'',
              ''failure'']))"
proof -
  have success: "(conclusion_of (completed_request ow rp cid ex) = ''success'') = list_all pass ex"
    by (simp add: conclusion_simps)
  have failure: "(conclusion_of (completed_request ow rp cid ex) = ''failure'') = (\<not> list_all pass ex)"
    by (simp add: conclusion_simps)
  have fallback: "error_request ow rp cid =
        PatchCheckRun ow rp cid ''completed'' ''failure''
          (Output ''Compliance (files): ERROR'' ''Error while performing required-file checks''
             ''See app logs for details.'')"
    by (simp add: error_request_def)
  have run: "\<forall>a cid'.
        action p \<in> {JStr ''opened'', JStr ''reopened'', JStr ''synchronize''}
        \<and> truthy (installation_id p) \<and> truthy (owner_login p)
        \<and> truthy (repository_name p) \<and> truthy (head_sha p) \<and> truthy (number p)
        \<and> remote (GetInstallationOctokit (installation_id p)) = Inr a
        \<and> remote (PostCheckRun (owner_login p) (repository_name p) ''Compliance'' (head_sha p)
              ''in_progress'') = Inr cid' \<longrightarrow>
        (\<forall>ex' d d'. check_files remote (owner_login p) (repository_name p) (head_sha p) targets = Inr ex'
             \<and> remote (completed_request (owner_login p) (repository_name p) cid' ex') = Inr d
             \<and> remote (PostComment (owner_login p) (repository_name p) (number p) (renderComment ex')) = Inr d' \<longrightarrow>
           finalizes (handler remote p) = [completed_request (owner_login p) (repository_name p) cid' ex']
           \<and> map conclusion_of (finalizes (handler remote p)) =
               [if list_all pass ex' then ''success'' else ''failure''])
        \<and> (\<forall>ex' err. check_files remote (owner_login p) (repository_name p) (head_sha p) targets = Inr ex'
             \<and> remote (completed_request (owner_login p) (repository_name p) cid' ex') = Inl err \<longrightarrow>
           map conclusion_of (finalizes (handler remote p)) =
             [if list_all pass ex' then ''success'' else ''failure'', ''failure''])
        \<and> (\<forall>ex'. check_files remote (owner_login p) (repository_name p) (head_sha p) targets = Inr ex' \<longrightarrow>
           take 1 (finalizes (handler remote p)) = [completed_request (owner_login p) (repository_name p) cid' ex'])
        \<and> (\<forall>err. check_files remote (owner_login p) (repository_name p) (head_sha p) targets = Inl err \<longrightarrow>
           finalizes (handler remote p) = [error_request (owner_login p) (repository_name p) cid']
           \<and> map conclusion_of (finalizes (handler remote p)) = [''failure''])"
  proof (intro allI impI, elim conjE)
    fix a cid'
    assume act: "action p \<in> {JStr ''opened'', JStr ''reopened'', JStr ''synchronize''}"
      and fields: "truthy (installation_id p)" "truthy (owner_login p)"
        "truthy (repository_name p)" "truthy (head_sha p)" "truthy (number p)"
      and auth: "remote (GetInstallationOctokit (installation_id p)) = Inr a"
      and create: "remote (PostCheckRun (owner_login p) (repository_name p) ''Compliance''
          (head_sha p) ''in_progress'') = Inr cid'"
    have created: "actionable (action p)" "\<not> missing_fields p"
      "remote (GetInstallationOctokit (installation_id p)) = Inr a"
      "remote (create_request (owner_login p) (repository_name p) (head_sha p)) = Inr cid'"
      using act fields auth create
      by (simp_all add: actionable_iff missing_fields_iff create_request_def)
    note fin = finalizes_created [OF created]
    have accepted: "\<forall>ex' d d'. check_files remote (owner_login p) (repository_name p) (head_sha p) targets = Inr ex'
             \<and> remote (completed_request (owner_login p) (repository_name p) cid' ex') = Inr d
             \<and> remote (PostComment (owner_login p) (repository_name p) (number p) (renderComment ex')) = Inr d' \<longrightarrow>
           finalizes (handler remote p) = [completed_request (owner_login p) (repository_name p) cid' ex']
           \<and> map conclusion_of (finalizes (handler remote p)) =
               [if list_all pass ex' then ''success'' else ''failure'']"
      by (simp add: handler_succeeds [OF created] finalizes_run finalize_simps conclusion_simps)
    have refused: "\<forall>ex' err. check_files remote (owner_login p) (repository_name p) (head_sha p) targets = Inr ex'
             \<and> remote (completed_request (owner_login p) (repository_name p) cid' ex') = Inl err \<longrightarrow>
           map conclusion_of (finalizes (handler remote p)) =
             [if list_all pass ex' then ''success'' else ''failure'', ''failure'']"
      by (simp add: handler_patch_fails [OF created] finalizes_run finalize_simps
          conclusion_simps)
    have verdict: "\<forall>ex'. check_files remote (owner_login p) (repository_name p) (head_sha p) targets = Inr ex' \<longrightarrow>
           take 1 (finalizes (handler remote p)) = [completed_request (owner_login p) (repository_name p) cid' ex']"
      by (simp add: fin)
    have no_verdict: "\<forall>err. check_files remote (owner_login p) (repository_name p) (head_sha p) targets = Inl err \<longrightarrow>
           finalizes (handler remote p) = [error_request (owner_login p) (repository_name p) cid']
           \<and> map conclusion_of (finalizes (handler remote p)) = [''failure'']"
      by (simp add: fin try_block_throws_without_verdict conclusion_simps)
    show "(\<forall>ex' d d'. check_files remote (owner_login p) (repository_name p) (head_sha p) targets = Inr ex'
             \<and> remote (completed_request (owner_login p) (repository_name p) cid' ex') = Inr d
             \<and> remote (PostComment (owner_login p) (repository_name p) (number p) (renderComment ex')) = Inr d' \<longrightarrow>
           finalizes (handler remote p) = [completed_request (owner_login p) (repository_name p) cid' ex']
           \<and> map conclusion_of (finalizes (handler remote p)) =
               [if list_all pass ex' then ''success'' else ''failure''])
        \<and> (\<forall>ex' err. check_files remote (owner_login p) (repository_name p) (head_sha p) targets = Inr ex'
             \<and> remote (completed_request (owner_login p) (repository_name p) cid' ex') = Inl err \<longrightarrow>
           map conclusion_of (finalizes (handler remote p)) =
             [if list_all pass ex' then ''success'' else ''failure'', ''failure''])
        \<and> (\<forall>ex'. check_files remote (owner_login p) (repository_name p) (head_sha p) targets = Inr ex' \<longrightarrow>
           take 1 (finalizes (handler remote p)) = [completed_request (owner_login p) (repository_name p) cid' ex'])
        \<and> (\<forall>err. check_files remote (owner_login p) (repository_name p) (head_sha p) targets = Inl err \<longrightarrow>
           finalizes (handler remote p) = [error_request (owner_login p) (repository_name p) cid']
           \<and> map conclusion_of (finalizes (handler remote p)) = [''failure''])"
      by (rule conjI [OF accepted conjI [OF refused conjI [OF verdict no_verdict]]])
  qed
  have closed: "\<forall>c\<in>set (finalizes (handler remote p)). conclusion_of c = ''success'' \<longrightarrow>
        (\<exists>ex'. check_files remote (owner_login p) (repository_name p) (head_sha p) targets = Inr ex' \<and> list_all pass ex')"
    using success_only_with_verdict by blast
  have demo_success: "(conclusion_of (demo_completed_request ow rp cid rnd) = ''success'')
        = list_all c_pass (demo_checks (rnd > 0.5))"
    by (simp add: conclusion_simps demo_checks_pass)
  have demo_fallback: "conclusion_of (demo_error_request ow rp cid) = ''failure''"
    by (simp add: conclusion_simps)
  have demo_run: "\<forall>a cid'.
        action p \<in> {JStr ''opened'', JStr ''reopened'', JStr ''synchronize''}
        \<and> truthy (installation_id p) \<and> truthy (owner_login p)
        \<and> truthy (repository_name p) \<and> truthy (head_sha p) 
        \<and> remote (GetInstallationOctokit (installation_id p)) = Inr a
        \<and> remote (PostCheckRun (owner_login p) (repository_name p) ''Compliance'' (head_sha p)
              ''in_progress'') = Inr cid' \<longrightarrow>
        take 1 (finalizes (demo_handler remote rnd p)) = [demo_completed_request (owner_login p) (repository_name p) cid' rnd]
        \<and> (\<forall>d. remote (demo_completed_request (owner_login p) (repository_name p) cid' rnd) = Inr d \<longrightarrow>
           map conclusion_of (finalizes (demo_handler remote rnd p)) =
             [if list_all c_pass (demo_checks (rnd > 0.5)) then ''success'' else ''failure''])
        \<and> (\<forall>err. remote (demo_completed_request (owner_login p) (repository_name p) cid' rnd) = Inl err \<longrightarrow>
           map conclusion_of (finalizes (demo_handler remote rnd p)) =
             [if list_all c_pass (demo_checks (rnd > 0.5)) then ''success'' else ''failure'',
              ''failure''])"
  proof (intro allI impI, elim conjE)
    fix a cid'
    assume act: "action p \<in> {JStr ''opened'', JStr ''reopened'', JStr ''synchronize''}"
      and fields: "truthy (installation_id p)" "truthy (owner_login p)"
        "truthy (repository_name p)" "truthy (head_sha p)"
      and auth: "remote (GetInstallationOctokit (installation_id p)) = Inr a"
      and create: "remote (PostCheckRun (owner_login p) (repository_name p) ''Compliance''
          (head_sha p) ''in_progress'') = Inr cid'"
    have created: "actionable (action p)" "\<not> demo_missing_fields p"
      "remote (GetInstallationOctokit (installation_id p)) = Inr a"
      "remote (create_request (owner_login p) (repository_name p) (head_sha p)) = Inr cid'"
      using act fields auth create
      by (simp_all add: actionable_iff demo_missing_fields_iff create_request_def)
    have first: "take 1 (finalizes (demo_handler remote rnd p)) = [demo_completed_request (owner_login p) (repository_name p) cid' rnd]"
      by (simp add: demo_handler_created [OF created] Let_def finalizes_run demo_try_block_eq
          finalize_simps)
    have accepted: "\<forall>d. remote (demo_completed_request (owner_login p) (repository_name p) cid' rnd) = Inr d \<longrightarrow>
           map conclusion_of (finalizes (demo_handler remote rnd p)) =
             [if list_all c_pass (demo_checks (rnd > 0.5)) then ''success'' else ''failure'']"
      by (simp add: demo_handler_patch_accepted [OF created] finalizes_run finalize_simps
          conclusion_simps demo_checks_pass)
    have refused: "\<forall>err. remote (demo_completed_request (owner_login p) (repository_name p) cid' rnd) = Inl err \<longrightarrow>
           map conclusion_of (finalizes (demo_handler remote rnd p)) =
             [if list_all c_pass (demo_checks (rnd > 0.5)) then ''success'' else ''failure'',
              ''failure'']"
      by (simp add: demo_handler_patch_fails [OF created] finalizes_run finalize_simps
          conclusion_simps demo_checks_pass)
    show "take 1 (finalizes (demo_handler remote rnd p)) = [demo_completed_request (owner_login p) (repository_name p) cid' rnd]
        \<and> (\<forall>d. remote (demo_completed_request (owner_login p) (repository_name p) cid' rnd) = Inr d \<longrightarrow>
           map conclusion_of (finalizes (demo_handler remote rnd p)) =
             [if list_all c_pass (demo_checks (rnd > 0.5)) then ''success'' else ''failure''])
        \<and> (\<forall>err. remote (demo_completed_request (owner_login p) (repository_name p) cid' rnd) = Inl err \<longrightarrow>
           map conclusion_of (finalizes (demo_handler remote rnd p)) =
             [if list_all c_pass (demo_checks (rnd > 0.5)) then ''success'' else ''failure'',
              ''failure''])"
      by (rule conjI [OF first conjI [OF accepted refused]])
  qed
  show ?thesis
    by (rule conjI [OF success conjI [OF failure conjI [OF fallback conjI [OF run
        conjI [OF closed conjI [OF demo_success conjI [OF demo_fallback demo_run]]]]]]])
qed

theorem conclusion_fails_closed_witness:
  "map conclusion_of (finalizes (handler all_ok example_event)) = [''success'']
   \<and> map conclusion_of (finalizes (handler contributing_absent example_event)) = [''failure'']
   \<and> finalizes (handler contents_unavailable example_event) =
       [PatchCheckRun (JStr ''octo'') (JStr ''demo'') (JNum 42) ''completed'' ''failure''
          (Output ''Compliance (files): ERROR'' ''Error while performing required-file checks''
             ''See app logs for details.'')]
   \<and> map conclusion_of (finalizes (demo_handler all_ok (7/10) example_event)) = [''success'']
   \<and> map conclusion_of (finalizes (demo_handler all_ok (3/10) example_event)) = [''failure'']"
proof -
  have accepted:
    "action example_event \<in> {JStr ''opened'', JStr ''reopened'', JStr ''synchronize''}
     \<and> truthy (installation_id example_event) \<and> truthy (owner_login example_event)
     \<and> truthy (repository_name example_event) \<and> truthy (head_sha example_event)
     \<and> truthy (number example_event)"
    by (simp add: example_event_def)
  have present: "map conclusion_of (finalizes (handler all_ok example_event)) = [''success'']"
    using conclusion_fails_closed [where p = example_event and remote = all_ok] accepted
    by (simp add: all_ok_def example_event_def check_files_def check_target_def fileExists_def
        targets_def)
  have absent: "map conclusion_of (finalizes (handler contributing_absent example_event))
      = [''failure'']"
    using conclusion_fails_closed [where p = example_event and remote = contributing_absent]
      accepted
    by (simp add: contributing_absent_def example_event_def check_files_def check_target_def
        fileExists_def targets_def completed_request_def Let_def)
  have unavailable: "finalizes (handler contents_unavailable example_event) =
       [PatchCheckRun (JStr ''octo'') (JStr ''demo'') (JNum 42) ''completed'' ''failure''
          (Output ''Compliance (files): ERROR'' ''Error while performing required-file checks''
             ''See app logs for details.'')]"
    using conclusion_fails_closed [where p = example_event and remote = contents_unavailable
        and ow = "JStr ''octo''" and rp = "JStr ''demo''" and cid = "JNum 42"] accepted
    by (simp add: contents_unavailable_def example_event_def check_files_def check_target_def
        fileExists_def targets_def)
  have demo_passes: "map conclusion_of (finalizes (demo_handler all_ok (7/10) example_event))
      = [''success'']"
    using conclusion_fails_closed [where p = example_event and remote = all_ok and rnd = "7/10"]
      accepted
    by (simp add: all_ok_def example_event_def demo_checks_def)
  have demo_fails: "map conclusion_of (finalizes (demo_handler all_ok (3/10) example_event))
      = [''failure'']"
    using conclusion_fails_closed [where p = example_event and remote = all_ok and rnd = "3/10"]
      accepted
    by (simp add: all_ok_def example_event_def demo_checks_def)
  show ?thesis
    by (rule conjI [OF present conjI [OF absent conjI [OF unavailable
        conjI [OF demo_passes demo_fails]]]])
qed

theorem conclusion_fails_closed_counterexample:
  "check_files rejects_computed_report (JStr ''octo'') (JStr ''demo'') (JStr ''abc123'') targets =
     Inr [\<lparr>name = ''README.md'', pass = True, rnotes = ''Checked at repo root''\<rparr>,
          \<lparr>name = ''CONTRIBUTING.md'', pass = True, rnotes = ''Checked at repo root''\<rparr>]
   \<and> list_all pass
         [\<lparr>name = ''README.md'', pass = True, rnotes = ''Checked at repo root''\<rparr>,
          \<lparr>name = ''CONTRIBUTING.md'', pass = True, rnotes = ''Checked at repo root''\<rparr>]
   \<and> rejects_computed_report
         (completed_request (JStr ''octo'') (JStr ''demo'') (JNum 42)
            [\<lparr>name = ''README.md'', pass = True, rnotes = ''Checked at repo root''\<rparr>,
          \<lparr>name = ''CONTRIBUTING.md'', pass = True, rnotes = ''Checked at repo root''\<rparr>])
       = Inl (ApiError (Some 422))
   \<and> rejects_computed_report
         (PatchCheckRun (JStr ''octo'') (JStr ''demo'') (JNum 42) ''completed'' ''failure''
          (Output ''Compliance (files): ERROR'' ''Error while performing required-file checks''
             ''See app logs for details.''))
       = Inr JObj
   \<and> map conclusion_of (finalizes (handler rejects_computed_report example_event))
       = [''success'', ''failure'']
   \<and> last (map conclusion_of (finalizes (handler rejects_computed_report example_event)))
       = ''failure''"
  by (simp add: handler_defs example_event_def rejects_computed_report_def finalizes_def)

section \<open>A failing comment\<close>

text \<open>
  C2: the claim is that a failure of the comment post, after the check run has been
  completed, sends no further request for the check run and leaves its conclusion as it
  is. The run of the file-check handler on the example event, both files present, the
  comment refused with status 403: the check run is completed with the conclusion
  success, the comment is attempted, and the catch block then sends the error report with
  the conclusion failure.
\<close>

theorem comment_failure_sends_error_report:
  "calls (handler comment_forbidden example_event) =
     [GetInstallationOctokit (JNum 7),
      create_request (JStr ''octo'') (JStr ''demo'') (JStr ''abc123''),
      GetContents (JStr ''octo'') (JStr ''demo'') ''README.md'' (JStr ''abc123''),
      GetContents (JStr ''octo'') (JStr ''demo'') ''CONTRIBUTING.md'' (JStr ''abc123''),
      completed_request (JStr ''octo'') (JStr ''demo'') (JNum 42)
        [\<lparr>name = ''README.md'', pass = True, rnotes = ''Checked at repo root''\<rparr>,
         \<lparr>name = ''CONTRIBUTING.md'', pass = True, rnotes = ''Checked at repo root''\<rparr>],
      PostComment (JStr ''octo'') (JStr ''demo'') (JNum 5)
        (renderComment
          [\<lparr>name = ''README.md'', pass = True, rnotes = ''Checked at repo root''\<rparr>,
           \<lparr>name = ''CONTRIBUTING.md'', pass = True, rnotes = ''Checked at repo root''\<rparr>]),
      error_request (JStr ''octo'') (JStr ''demo'') (JNum 42)]
   \<and> map conclusion_of (finalizes (handler comment_forbidden example_event))
       = [''success'', ''failure'']"
  by (simp add: handler_defs example_event_def comment_forbidden_def finalizes_def)

section \<open>Determinism of the report\<close>













end
